theory Spec2Isabelle
  imports Complex_Main
begin

section \<open>Exceptions, results and stateful computations\<close>

text \<open>
  The Python exceptions that \<^verbatim>\<open>model.py\<close> and the tensor library underneath it can raise.
  A computation that may raise returns \<open>error + 'a\<close>, with \<open>Inl\<close> for the exception.
\<close>

datatype error =
    AssertionError
  | ZeroDivisionError
  | TypeError
  | NameError
  | AttributeError
  | RuntimeError
  | ValueError
  | IndexError

type_synonym 'a result = "error + 'a"

definition rbind :: "'a result \<Rightarrow> ('a \<Rightarrow> 'b result) \<Rightarrow> 'b result" where
  "rbind r f = (case r of Inl e \<Rightarrow> Inl e | Inr v \<Rightarrow> f v)"

text \<open>
  A statement sequence that reads and assigns state, and may raise part-way: the state
  reached when the exception is raised is kept, as the assignments made before a Python
  exception are.
\<close>

type_synonym ('s, 'a) prog = "'s \<Rightarrow> 'a result \<times> 's"

definition preturn :: "'a \<Rightarrow> ('s, 'a) prog" where
  "preturn v s = (Inr v, s)"

definition praise :: "error \<Rightarrow> ('s, 'a) prog" where
  "praise e s = (Inl e, s)"

definition plift :: "'a result \<Rightarrow> ('s, 'a) prog" where
  "plift r s = (r, s)"

definition pbind :: "('s, 'a) prog \<Rightarrow> ('a \<Rightarrow> ('s, 'b) prog) \<Rightarrow> ('s, 'b) prog" where
  "pbind m f s = (case m s of (Inl e, s') \<Rightarrow> (Inl e, s') | (Inr v, s') \<Rightarrow> f v s')"

definition pget :: "('s, 's) prog" where
  "pget s = (Inr s, s)"

definition pput :: "'s \<Rightarrow> ('s, unit) prog" where
  "pput s' s = (Inr (), s')"

text \<open>
  Running a method of a sub-module held in an attribute: the sub-module is read with
  \<open>get\<close>, the method runs on it, and what the method assigned is stored back with \<open>put\<close>.
\<close>

definition zoom :: "('s \<Rightarrow> 'a) \<Rightarrow> ('a \<Rightarrow> 's \<Rightarrow> 's) \<Rightarrow> ('a, 'r) prog \<Rightarrow> ('s, 'r) prog" where
  "zoom get put m s = (case m (get s) of (r, a') \<Rightarrow> (r, put a' s))"

section \<open>Tensors\<close>

text \<open>
  A tensor is its shape and its entries in row-major order, as a contiguous tensor is
  laid out. The entries are real numbers: the arithmetic of the model is exact, and the
  rounding and the special values of 32-bit floats are not part of it. A hidden state of
  shape (batch, seq, d_model) is a \<open>t3\<close>; the per-head tensors, the attention scores and
  a mask brought to rank four are \<open>t4\<close>, with axes \<open>k0\<close> to \<open>k3\<close>; \<open>t2\<close> is a matrix.
\<close>

record t2 =
  n2 :: nat
  d2 :: nat
  data2 :: "real list"

record t3 =
  b3 :: nat
  s3 :: nat
  d3 :: nat
  data3 :: "real list"

record t4 =
  k0 :: nat
  k1 :: nat
  k2 :: nat
  k3 :: nat
  data4 :: "real list"

definition at2 :: "t2 \<Rightarrow> nat \<Rightarrow> nat \<Rightarrow> real" where
  "at2 x i j = data2 x ! (i * d2 x + j)"

definition at3 :: "t3 \<Rightarrow> nat \<Rightarrow> nat \<Rightarrow> nat \<Rightarrow> real" where
  "at3 x b s d = data3 x ! ((b * s3 x + s) * d3 x + d)"

definition at4 :: "t4 \<Rightarrow> nat \<Rightarrow> nat \<Rightarrow> nat \<Rightarrow> nat \<Rightarrow> real" where
  "at4 x a b c d = data4 x ! (((a * k1 x + b) * k2 x + c) * k3 x + d)"

text \<open>The tensor of a given shape whose entries are given by their indices.\<close>

definition tab2 :: "nat \<Rightarrow> nat \<Rightarrow> (nat \<Rightarrow> nat \<Rightarrow> real) \<Rightarrow> t2" where
  "tab2 N D f =
     \<lparr>n2 = N, d2 = D, data2 = map (\<lambda>k. f (k div D) (k mod D)) [0..<N * D]\<rparr>"

definition tab3 :: "nat \<Rightarrow> nat \<Rightarrow> nat \<Rightarrow> (nat \<Rightarrow> nat \<Rightarrow> nat \<Rightarrow> real) \<Rightarrow> t3" where
  "tab3 B S D f =
     \<lparr>b3 = B, s3 = S, d3 = D,
      data3 = map (\<lambda>k. f (k div D div S) (k div D mod S) (k mod D)) [0..<B * S * D]\<rparr>"

definition tab4 ::
  "nat \<Rightarrow> nat \<Rightarrow> nat \<Rightarrow> nat \<Rightarrow> (nat \<Rightarrow> nat \<Rightarrow> nat \<Rightarrow> nat \<Rightarrow> real) \<Rightarrow> t4" where
  "tab4 B H S D f =
     \<lparr>k0 = B, k1 = H, k2 = S, k3 = D,
      data4 = map (\<lambda>k. f (k div D div S div H) (k div D div S mod H) (k div D mod S) (k mod D))
                [0..<B * H * S * D]\<rparr>"

text \<open>
  A tensor has as many entries as its shape says; the tensors that the operations below
  build do, and the inputs of a forward pass are meant to.
\<close>

definition wf3 :: "t3 \<Rightarrow> bool" where
  "wf3 x \<longleftrightarrow> length (data3 x) = b3 x * s3 x * d3 x"

definition wf4 :: "t4 \<Rightarrow> bool" where
  "wf4 x \<longleftrightarrow> length (data4 x) = k0 x * k1 x * k2 x * k3 x"

text \<open>
  Broadcasting of an elementwise operation: two sizes of an axis agree when they are
  equal or one of them is 1, and the axis of size 1 is read at index 0 throughout.
\<close>

definition bdim :: "nat \<Rightarrow> nat \<Rightarrow> nat result" where
  "bdim a b = (if a = b then Inr a else if a = 1 then Inr b else if b = 1 then Inr a
               else Inl RuntimeError)"

definition bidx :: "nat \<Rightarrow> nat \<Rightarrow> nat" where
  "bidx n i = (if n = 1 then 0 else i)"

definition bat3 :: "t3 \<Rightarrow> nat \<Rightarrow> nat \<Rightarrow> nat \<Rightarrow> real" where
  "bat3 x b s d = at3 x (bidx (b3 x) b) (bidx (s3 x) s) (bidx (d3 x) d)"

definition bat4 :: "t4 \<Rightarrow> nat \<Rightarrow> nat \<Rightarrow> nat \<Rightarrow> nat \<Rightarrow> real" where
  "bat4 x a b c d = at4 x (bidx (k0 x) a) (bidx (k1 x) b) (bidx (k2 x) c) (bidx (k3 x) d)"

definition bop3 :: "(real \<Rightarrow> real \<Rightarrow> real) \<Rightarrow> t3 \<Rightarrow> t3 \<Rightarrow> t3 result" where
  "bop3 f x y =
     rbind (bdim (b3 x) (b3 y)) (\<lambda>B.
     rbind (bdim (s3 x) (s3 y)) (\<lambda>S.
     rbind (bdim (d3 x) (d3 y)) (\<lambda>D.
     Inr (tab3 B S D (\<lambda>b s d. f (bat3 x b s d) (bat3 y b s d))))))"

definition map3 :: "(real \<Rightarrow> real) \<Rightarrow> t3 \<Rightarrow> t3" where
  "map3 f x = tab3 (b3 x) (s3 x) (d3 x) (\<lambda>b s d. f (at3 x b s d))"

definition map4 :: "(real \<Rightarrow> real) \<Rightarrow> t4 \<Rightarrow> t4" where
  "map4 f x = tab4 (k0 x) (k1 x) (k2 x) (k3 x) (\<lambda>a b c d. f (at4 x a b c d))"

text \<open>A vector of shape (n) enters an operation with a tensor of rank three as (1, 1, n).\<close>

definition vec3 :: "real list \<Rightarrow> t3" where
  "vec3 v = \<lparr>b3 = 1, s3 = 1, d3 = length v, data3 = v\<rparr>"

section \<open>The random number generator\<close>

text \<open>
  Parameter initialisation and dropout draw from the library's global generator. The
  generator is what it will hand out: the stream of the values for the initialisers,
  which drawing \<open>n\<close> values advances by \<open>n\<close>, and the sample that decides, by the index
  of an entry, whether dropout keeps it.
\<close>

record rng =
  stream :: "nat \<Rightarrow> real"
  bernoulli :: "nat list \<Rightarrow> bool"

definition draw :: "nat \<Rightarrow> (rng, real list) prog" where
  "draw n g = (Inr (map (stream g) [0..<n]), g\<lparr>stream := (\<lambda>i. stream g (i + n))\<rparr>)"

definition rows_of :: "nat \<Rightarrow> nat \<Rightarrow> 'a list \<Rightarrow> 'a list list" where
  "rows_of k n xs = map (\<lambda>i. take n (drop (i * n) xs)) [0..<k]"

section \<open>Library modules: Linear, Dropout, Embedding\<close>

text \<open>
  \<^verbatim>\<open>nn.Linear(in_features, out_features)\<close> allocates a weight of shape
  (out_features, in_features) and a bias of shape (out_features), which fails on a
  negative size, and fills both from the generator. Its forward pass maps the last axis:
  \<open>y[e] = (\<Sum>i. x[i] * weight[e][i]) + bias[e]\<close>, and fails when the last axis of the
  input is not \<open>in_features\<close> wide.
\<close>

record linear =
  in_features :: nat
  out_features :: nat
  weight :: "real list list"
  bias :: "real list"

definition Linear_init :: "int \<Rightarrow> int \<Rightarrow> (rng, linear) prog" where
  "Linear_init d_in d_out =
     (if d_in < 0 \<or> d_out < 0 then praise RuntimeError
      else pbind (draw (nat d_out * nat d_in)) (\<lambda>ws.
           pbind (draw (nat d_out)) (\<lambda>bs.
           preturn \<lparr>in_features = nat d_in, out_features = nat d_out,
                    weight = rows_of (nat d_out) (nat d_in) ws, bias = bs\<rparr>)))"

definition Linear_forward :: "linear \<Rightarrow> t3 \<Rightarrow> t3 result" where
  "Linear_forward l x =
     (if d3 x \<noteq> in_features l then Inl RuntimeError
      else Inr (tab3 (b3 x) (s3 x) (out_features l)
                  (\<lambda>b s e. (\<Sum>i<in_features l. at3 x b s i * weight l ! e ! i) + bias l ! e)))"

definition Linear_parameters :: "linear \<Rightarrow> real list list" where
  "Linear_parameters l = [concat (weight l), bias l]"

text \<open>
  \<^verbatim>\<open>nn.Dropout(p)\<close> rejects a probability outside [0, 1]. A new module is in training
  mode. In training mode the forward pass zeroes an entry unless the generator keeps it
  and rescales the kept ones by 1 / (1 - p); in evaluation mode it returns its input. The
  field \<open>keep\<close> is the sample of the generator that the forward pass will see; the
  constructor draws nothing.
\<close>

record dropout =
  prob :: real
  training :: bool
  keep :: "nat list \<Rightarrow> bool"

definition Dropout_init :: "real \<Rightarrow> (rng, dropout) prog" where
  "Dropout_init pr =
     (if pr < 0 \<or> 1 < pr then praise ValueError
      else pbind pget (\<lambda>g. preturn \<lparr>prob = pr, training = True, keep = bernoulli g\<rparr>))"

definition drop_entry :: "dropout \<Rightarrow> nat list \<Rightarrow> real \<Rightarrow> real" where
  "drop_entry dr idx v =
     (if prob dr = 0 then v
      else if prob dr < 1 \<and> keep dr idx then v / (1 - prob dr)
      else 0)"

definition Dropout_forward3 :: "dropout \<Rightarrow> t3 \<Rightarrow> t3" where
  "Dropout_forward3 dr x =
     (if \<not> training dr then x
      else tab3 (b3 x) (s3 x) (d3 x) (\<lambda>b s d. drop_entry dr [b, s, d] (at3 x b s d)))"

definition Dropout_forward4 :: "dropout \<Rightarrow> t4 \<Rightarrow> t4" where
  "Dropout_forward4 dr x =
     (if \<not> training dr then x
      else tab4 (k0 x) (k1 x) (k2 x) (k3 x)
             (\<lambda>a b c d. drop_entry dr [a, b, c, d] (at4 x a b c d)))"

text \<open>
  Calling an object that is not callable raises \<^verbatim>\<open>TypeError\<close>: a \<^verbatim>\<open>float\<close> stored where a
  module was meant, and the \<^verbatim>\<open>torch.Size\<close> that \<^verbatim>\<open>x.shape\<close> returns.
\<close>

definition float_call :: "real \<Rightarrow> 'a \<Rightarrow> 'b result" where
  "float_call f arg = Inl TypeError"

definition Size_call :: "nat list \<Rightarrow> int \<Rightarrow> nat result" where
  "Size_call shape arg = Inl TypeError"

section \<open>LayerNormalization\<close>

text \<open>
  \<^verbatim>\<open>LayerNormalization.__init__(self, d_model, eps=1e-6)\<close>: \<open>d_model\<close> is a required
  argument, so a call that leaves it out raises \<^verbatim>\<open>TypeError\<close>; \<open>alpha\<close> and \<open>beta\<close> are
  the module's two parameters.
\<close>

record layernorm =
  ln_d_model :: int
  eps :: real
  alpha :: "real list"
  beta :: "real list"

definition LayerNormalization_init :: "int option \<Rightarrow> real option \<Rightarrow> layernorm result" where
  "LayerNormalization_init d_model eps_arg =
     (case d_model of
        None \<Rightarrow> Inl TypeError
      | Some d \<Rightarrow>
          if d < 0 then Inl RuntimeError
          else Inr \<lparr>ln_d_model = d,
                    eps = (case eps_arg of None \<Rightarrow> 1 / 10 ^ 6 | Some e \<Rightarrow> e),
                    alpha = replicate (nat d) 1, beta = replicate (nat d) 0\<rparr>)"

definition LayerNormalization_parameters :: "layernorm \<Rightarrow> real list list" where
  "LayerNormalization_parameters self = [alpha self, beta self]"

text \<open>
  \<^verbatim>\<open>x.mean(dim=-1, keepdim=True)\<close> and \<^verbatim>\<open>x.std(dim=-1, keepdim=True)\<close>: the statistics of
  each token over its features, of shape (batch, seq, 1). The standard deviation is the
  library's default, the sample deviation that divides by one less than the width. In
  floating point it is not a number on a single feature, as the mean is on none; the
  model's division by zero gives 0 there instead.
\<close>

definition row_mean :: "t3 \<Rightarrow> nat \<Rightarrow> nat \<Rightarrow> real" where
  "row_mean x b s = (\<Sum>d<d3 x. at3 x b s d) / real (d3 x)"

definition row_std :: "t3 \<Rightarrow> nat \<Rightarrow> nat \<Rightarrow> real" where
  "row_std x b s = sqrt ((\<Sum>d<d3 x. (at3 x b s d - row_mean x b s)\<^sup>2) / (real (d3 x) - 1))"

definition mean_last :: "t3 \<Rightarrow> t3" where
  "mean_last x = tab3 (b3 x) (s3 x) 1 (\<lambda>b s d. row_mean x b s)"

definition std_last :: "t3 \<Rightarrow> t3" where
  "std_last x = tab3 (b3 x) (s3 x) 1 (\<lambda>b s d. row_std x b s)"

definition LayerNormalization_forward :: "layernorm \<Rightarrow> t3 \<Rightarrow> t3 result" where
  "LayerNormalization_forward self x =
     (let mean = mean_last x; std = std_last x
      in rbind (bop3 (-) x mean) (\<lambda>centred.
         rbind (bop3 (*) (vec3 (alpha self)) centred) (\<lambda>scaled.
         rbind (bop3 (/) scaled (map3 (\<lambda>v. v + eps self) std)) (\<lambda>quot.
         bop3 (+) quot (vec3 (beta self))))))"

section \<open>ResidualConnection\<close>

text \<open>
  \<^verbatim>\<open>ResidualConnection.__init__\<close> first stores the dropout probability and then replaces
  it by a \<^verbatim>\<open>nn.Dropout\<close> module, so the attribute ends up a module. The forward pass is
  \<^verbatim>\<open>x + self.dropout(sublayer(self.norm(x)))\<close>; the sublayer is a closure that may assign
  to the module that owns it, and may raise.
\<close>

record residual =
  rc_d_model :: int
  rc_norm :: layernorm
  rc_dropout :: dropout

definition ResidualConnection_init :: "int \<Rightarrow> real \<Rightarrow> (rng, residual) prog" where
  "ResidualConnection_init d_model dropout =
     pbind (plift (LayerNormalization_init (Some d_model) None)) (\<lambda>nrm.
     pbind (Dropout_init dropout) (\<lambda>dr.
     preturn \<lparr>rc_d_model = d_model, rc_norm = nrm, rc_dropout = dr\<rparr>))"

definition ResidualConnection_forward ::
  "residual \<Rightarrow> t3 \<Rightarrow> (t3 \<Rightarrow> ('s, t3) prog) \<Rightarrow> ('s, t3) prog" where
  "ResidualConnection_forward self x sublayer =
     pbind (plift (LayerNormalization_forward (rc_norm self) x)) (\<lambda>normed.
     pbind (sublayer normed) (\<lambda>y.
     plift (bop3 (+) x (Dropout_forward3 (rc_dropout self) y))))"

definition ResidualConnection_parameters :: "residual \<Rightarrow> real list list" where
  "ResidualConnection_parameters self = LayerNormalization_parameters (rc_norm self)"

section \<open>FeedForward\<close>

text \<open>
  \<^verbatim>\<open>FeedForward.__init__\<close> stores the dropout probability itself in \<^verbatim>\<open>self.dropout\<close>, and
  the forward pass \<^verbatim>\<open>self.linear2(self.dropout(self.relu(self.linear1(x))))\<close> calls it.
\<close>

record feedforward =
  ff_d_model :: int
  ff_d_ff :: int
  ff_dropout :: real
  linear1 :: linear
  linear2 :: linear

definition FeedForward_init :: "int \<Rightarrow> int \<Rightarrow> real \<Rightarrow> (rng, feedforward) prog" where
  "FeedForward_init d_model d_ff dropout =
     pbind (Linear_init d_model d_ff) (\<lambda>l1.
     pbind (Linear_init d_ff d_model) (\<lambda>l2.
     preturn \<lparr>ff_d_model = d_model, ff_d_ff = d_ff, ff_dropout = dropout,
              linear1 = l1, linear2 = l2\<rparr>))"

definition relu :: "t3 \<Rightarrow> t3" where
  "relu = map3 (\<lambda>v. max 0 v)"

definition FeedForward_forward :: "feedforward \<Rightarrow> t3 \<Rightarrow> t3 result" where
  "FeedForward_forward self x =
     rbind (Linear_forward (linear1 self) x) (\<lambda>a.
     rbind (float_call (ff_dropout self) (relu a)) (\<lambda>b.
     Linear_forward (linear2 self) b))"

definition FeedForward_parameters :: "feedforward \<Rightarrow> real list list" where
  "FeedForward_parameters self = Linear_parameters (linear1 self) @ Linear_parameters (linear2 self)"

section \<open>PositionalEncoding\<close>

text \<open>
  \<^verbatim>\<open>PositionalEncoding.__init__(self, d_model, seq_len, dropout)\<close> stores the dropout
  probability in \<^verbatim>\<open>self.dropout\<close> and builds the table \<^verbatim>\<open>pe\<close> step by step:
  \<^verbatim>\<open>torch.zeros(seq_len, d_model)\<close>, the column of positions, the row
  \<^verbatim>\<open>div_term = exp(arange(0, d_model, 2) * (-log(10000.0) / d_model))\<close>, then the two strided
  assignments \<^verbatim>\<open>pe[:, 0::2] = sin(position * div_term)\<close> and
  \<^verbatim>\<open>pe[:, 1::2] = cos(position * div_term)\<close>, each of which fails unless the right-hand
  side broadcasts to the columns it is assigned to. The table is registered as a buffer
  of shape (1, seq_len, d_model), so the module has no parameter.
\<close>

record posenc =
  pe_d_model :: int
  pe_seq_len :: int
  pe_dropout :: real
  pe :: t3

definition zeros2 :: "nat \<Rightarrow> nat \<Rightarrow> t2" where
  "zeros2 N D = tab2 N D (\<lambda>i j. 0)"

definition arange_column :: "nat \<Rightarrow> t2" where
  "arange_column N = tab2 N 1 (\<lambda>i j. real i)"

definition arange_step2 :: "nat \<Rightarrow> real list" where
  "arange_step2 D = map (\<lambda>i. real (2 * i)) [0..<(D + 1) div 2]"

definition column_times_row :: "t2 \<Rightarrow> real list \<Rightarrow> t2" where
  "column_times_row c r = tab2 (n2 c) (length r) (\<lambda>i j. at2 c i 0 * r ! j)"

definition map2t :: "(real \<Rightarrow> real) \<Rightarrow> t2 \<Rightarrow> t2" where
  "map2t f x = tab2 (n2 x) (d2 x) (\<lambda>i j. f (at2 x i j))"

definition set_columns :: "nat \<Rightarrow> t2 \<Rightarrow> t2 \<Rightarrow> t2 result" where
  "set_columns start rhs x =
     (let n = (d2 x + 1 - start) div 2
      in if (n2 rhs = n2 x \<or> n2 rhs = 1) \<and> (d2 rhs = n \<or> d2 rhs = 1)
         then Inr (tab2 (n2 x) (d2 x)
                     (\<lambda>i j. if start \<le> j \<and> even (j - start)
                            then at2 rhs (bidx (n2 rhs) i) (bidx (d2 rhs) ((j - start) div 2))
                            else at2 x i j))
         else Inl RuntimeError)"

definition unsqueeze0 :: "t2 \<Rightarrow> t3" where
  "unsqueeze0 x = \<lparr>b3 = 1, s3 = n2 x, d3 = d2 x, data3 = data2 x\<rparr>"

definition PositionalEncoding_init :: "int \<Rightarrow> int \<Rightarrow> real \<Rightarrow> posenc result" where
  "PositionalEncoding_init d_model seq_len dropout =
     (if seq_len < 0 \<or> d_model < 0 then Inl RuntimeError
      else let pe0 = zeros2 (nat seq_len) (nat d_model);
               position = arange_column (nat seq_len)
           in if d_model = 0 then Inl ZeroDivisionError
              else let div_term = map (\<lambda>a. exp (a * (- ln 10000 / real_of_int d_model)))
                                    (arange_step2 (nat d_model))
                   in rbind (set_columns 0 (map2t sin (column_times_row position div_term)) pe0)
                        (\<lambda>pe1.
                      rbind (set_columns 1 (map2t cos (column_times_row position div_term)) pe1)
                        (\<lambda>pe2.
                      Inr \<lparr>pe_d_model = d_model, pe_seq_len = seq_len, pe_dropout = dropout,
                           pe = unsqueeze0 pe2\<rparr>)))"

definition PositionalEncoding_parameters :: "posenc \<Rightarrow> real list list" where
  "PositionalEncoding_parameters self = []"

text \<open>
  The forward pass is \<^verbatim>\<open>x = x + (self.pe[:, :x.shape(1), :]).requires_grad_(False)\<close>
  followed by \<^verbatim>\<open>return self.dropout(x)\<close>. The first statement calls \<^verbatim>\<open>x.shape\<close>, the
  second calls the stored probability.
\<close>

definition slice_seq :: "t3 \<Rightarrow> nat \<Rightarrow> t3" where
  "slice_seq x n = tab3 (b3 x) (min n (s3 x)) (d3 x) (at3 x)"

definition PositionalEncoding_forward :: "posenc \<Rightarrow> t3 \<Rightarrow> t3 result" where
  "PositionalEncoding_forward self x =
     rbind (Size_call [b3 x, s3 x, d3 x] 1) (\<lambda>n.
     rbind (bop3 (+) x (slice_seq (pe self) n)) (\<lambda>y.
     float_call (pe_dropout self) y))"

section \<open>InputEmbeddings\<close>

text \<open>
  \<^verbatim>\<open>nn.Embedding(vocab_size, d_model)\<close> holds a table of shape (vocab_size, d_model) drawn
  from the generator; looking up an id outside the table raises \<^verbatim>\<open>IndexError\<close>. The forward
  pass scales the rows it looks up by \<^verbatim>\<open>math.sqrt(self.d_model)\<close>, which raises
  \<^verbatim>\<open>ValueError\<close> on a negative number. Token ids come as a tensor of shape (batch, seq).
\<close>

record embedding =
  num_embeddings :: nat
  embedding_dim :: nat
  emb_weight :: "real list list"

record embeddings =
  emb_d_model :: int
  emb_vocab_size :: int
  emb_embedding :: embedding

record tokens =
  tok_b :: nat
  tok_s :: nat
  tok_ids :: "int list"

definition Embedding_init :: "int \<Rightarrow> int \<Rightarrow> (rng, embedding) prog" where
  "Embedding_init n d =
     (if n < 0 \<or> d < 0 then praise RuntimeError
      else pbind (draw (nat n * nat d)) (\<lambda>ws.
           preturn \<lparr>num_embeddings = nat n, embedding_dim = nat d,
                    emb_weight = rows_of (nat n) (nat d) ws\<rparr>))"

definition Embedding_forward :: "embedding \<Rightarrow> tokens \<Rightarrow> t3 result" where
  "Embedding_forward e x =
     (if list_ex (\<lambda>i. i < 0 \<or> int (num_embeddings e) \<le> i) (tok_ids x) then Inl IndexError
      else Inr (tab3 (tok_b x) (tok_s x) (embedding_dim e)
                  (\<lambda>b s d. emb_weight e ! nat (tok_ids x ! (b * tok_s x + s)) ! d)))"

definition InputEmbeddings_init :: "int \<Rightarrow> int \<Rightarrow> (rng, embeddings) prog" where
  "InputEmbeddings_init d_model vocab_size =
     pbind (Embedding_init vocab_size d_model) (\<lambda>e.
     preturn \<lparr>emb_d_model = d_model, emb_vocab_size = vocab_size, emb_embedding = e\<rparr>)"

definition math_sqrt :: "int \<Rightarrow> real result" where
  "math_sqrt n = (if n < 0 then Inl ValueError else Inr (sqrt (real_of_int n)))"

definition InputEmbeddings_forward :: "embeddings \<Rightarrow> tokens \<Rightarrow> t3 result" where
  "InputEmbeddings_forward self x =
     rbind (Embedding_forward (emb_embedding self) x) (\<lambda>e.
     rbind (math_sqrt (emb_d_model self)) (\<lambda>r.
     Inr (map3 (\<lambda>v. v * r) e)))"

definition InputEmbeddings_parameters :: "embeddings \<Rightarrow> real list list" where
  "InputEmbeddings_parameters self = [concat (emb_weight (emb_embedding self))]"

section \<open>MultiHeadAttention\<close>

text \<open>
  \<^verbatim>\<open>MultiHeadAttention.__init__(self, d_model, h, dropout)\<close>. Python's \<^verbatim>\<open>%\<close> and
  \<^verbatim>\<open>//\<close> on integers are floor modulus and floor division, which are \<open>mod\<close> and \<open>div\<close>
  on \<open>int\<close>, except that a zero divisor raises. The attribute \<^verbatim>\<open>attention_scores\<close> does
  not exist before the first forward pass.
\<close>

record mha =
  mha_d_model :: int
  mha_h :: int
  mha_d_k :: int
  w_q :: linear
  w_k :: linear
  w_v :: linear
  w_o :: linear
  mha_dropout :: dropout
  attention_scores :: "t4 option"

definition MultiHeadAttention_init :: "int \<Rightarrow> int \<Rightarrow> real \<Rightarrow> (rng, mha) prog" where
  "MultiHeadAttention_init d_model h dropout =
     (if h = 0 then praise ZeroDivisionError
      else if d_model mod h \<noteq> 0 then praise AssertionError
      else pbind (Linear_init d_model d_model) (\<lambda>wq.
           pbind (Linear_init d_model d_model) (\<lambda>wk.
           pbind (Linear_init d_model d_model) (\<lambda>wv.
           pbind (Linear_init d_model d_model) (\<lambda>wo.
           pbind (Dropout_init dropout) (\<lambda>dr.
           preturn \<lparr>mha_d_model = d_model, mha_h = h, mha_d_k = d_model div h,
                    w_q = wq, w_k = wk, w_v = wv, w_o = wo,
                    mha_dropout = dr, attention_scores = None\<rparr>))))))"

definition MultiHeadAttention_parameters :: "mha \<Rightarrow> real list list" where
  "MultiHeadAttention_parameters self =
     Linear_parameters (w_q self) @ Linear_parameters (w_k self)
     @ Linear_parameters (w_v self) @ Linear_parameters (w_o self)"

text \<open>
  \<^verbatim>\<open>x.view(B, -1, h, d_k)\<close> and \<^verbatim>\<open>x.view(B, -1, d_model)\<close> keep the entries and give them a
  new shape. A negative size is refused, the size written \<^verbatim>\<open>-1\<close> is the number of entries
  divided by the product of the other sizes, and the call fails when that product is zero
  or does not divide the number of entries.
\<close>

definition view4 :: "t3 \<Rightarrow> nat \<Rightarrow> int \<Rightarrow> int \<Rightarrow> t4 result" where
  "view4 x B h dk =
     (if h < 0 \<or> dk < 0 then Inl RuntimeError
      else let n = b3 x * s3 x * d3 x; known = B * nat h * nat dk
           in if known = 0 \<or> n mod known \<noteq> 0 then Inl RuntimeError
              else Inr \<lparr>k0 = B, k1 = n div known, k2 = nat h, k3 = nat dk, data4 = data3 x\<rparr>)"

definition view3 :: "t4 \<Rightarrow> nat \<Rightarrow> int \<Rightarrow> t3 result" where
  "view3 x B d =
     (if d < 0 then Inl RuntimeError
      else let n = k0 x * k1 x * k2 x * k3 x; known = B * nat d
           in if known = 0 \<or> n mod known \<noteq> 0 then Inl RuntimeError
              else Inr \<lparr>b3 = B, s3 = n div known, d3 = nat d, data3 = data4 x\<rparr>)"

text \<open>
  \<^verbatim>\<open>x.transpose(1, 2)\<close> followed by a contiguous read, and \<^verbatim>\<open>x.transpose(-2, -1)\<close>.
\<close>

definition transpose12 :: "t4 \<Rightarrow> t4" where
  "transpose12 x = tab4 (k0 x) (k2 x) (k1 x) (k3 x) (\<lambda>a b c d. at4 x a c b d)"

definition transpose23 :: "t4 \<Rightarrow> t4" where
  "transpose23 x = tab4 (k0 x) (k1 x) (k3 x) (k2 x) (\<lambda>a b c d. at4 x a b d c)"

text \<open>
  \<^verbatim>\<open>torch.matmul\<close> on tensors of rank four multiplies the matrices of the last two axes
  and broadcasts the first two; the inner sizes must agree.
\<close>

definition matmul4 :: "t4 \<Rightarrow> t4 \<Rightarrow> t4 result" where
  "matmul4 x y =
     (if k3 x \<noteq> k2 y then Inl RuntimeError
      else rbind (bdim (k0 x) (k0 y)) (\<lambda>B.
           rbind (bdim (k1 x) (k1 y)) (\<lambda>H.
           Inr (tab4 B H (k2 x) (k3 y)
                  (\<lambda>a b i j. \<Sum>m<k3 x. at4 x (bidx (k0 x) a) (bidx (k1 x) b) i m
                                      * at4 y (bidx (k0 y) a) (bidx (k1 y) b) m j)))))"

text \<open>
  \<^verbatim>\<open>scores.masked_fill(mask == 0, value)\<close> broadcasts the scores and the mask against
  each other and writes \<open>value\<close> wherever the mask is zero.
\<close>

definition masked_fill :: "t4 \<Rightarrow> t4 \<Rightarrow> real \<Rightarrow> t4 result" where
  "masked_fill x msk v =
     rbind (bdim (k0 x) (k0 msk)) (\<lambda>A.
     rbind (bdim (k1 x) (k1 msk)) (\<lambda>B.
     rbind (bdim (k2 x) (k2 msk)) (\<lambda>C.
     rbind (bdim (k3 x) (k3 msk)) (\<lambda>D.
     Inr (tab4 A B C D (\<lambda>a b c d. if bat4 msk a b c d = 0 then v else bat4 x a b c d))))))"

definition softmax :: "t4 \<Rightarrow> t4" where
  "softmax x =
     tab4 (k0 x) (k1 x) (k2 x) (k3 x)
       (\<lambda>a b c d. exp (at4 x a b c d) / (\<Sum>j<k3 x. exp (at4 x a b c j)))"

text \<open>
  The static method \<^verbatim>\<open>attention(query, key, value, mask=None, dropout=None)\<close>, which
  returns the attended values and the attention weights.
\<close>

definition attention ::
  "t4 \<Rightarrow> t4 \<Rightarrow> t4 \<Rightarrow> t4 option \<Rightarrow> dropout option \<Rightarrow> (t4 \<times> t4) result" where
  "attention query key val msk dropout =
     (let d_k = k3 query
      in rbind (matmul4 query (transpose23 key)) (\<lambda>qk.
         rbind (case msk of
                  None \<Rightarrow> Inr (map4 (\<lambda>v. v / sqrt (real d_k)) qk)
                | Some m \<Rightarrow> masked_fill (map4 (\<lambda>v. v / sqrt (real d_k)) qk) m (- (10 ^ 9)))
           (\<lambda>scores.
         let probs = softmax scores;
             dropped = (case dropout of None \<Rightarrow> probs | Some dr \<Rightarrow> Dropout_forward4 dr probs)
         in rbind (matmul4 dropped val) (\<lambda>out. Inr (out, dropped)))))"

text \<open>
  \<^verbatim>\<open>MultiHeadAttention.forward(self, q, k, v, mask=None)\<close>. The assignment to
  \<^verbatim>\<open>self.attention_scores\<close> is the one place where a forward pass writes to a module.
\<close>

definition split_heads :: "mha \<Rightarrow> t3 \<Rightarrow> t4 result" where
  "split_heads self x = rbind (view4 x (b3 x) (mha_h self) (mha_d_k self)) (\<lambda>y. Inr (transpose12 y))"

definition MultiHeadAttention_forward ::
  "t3 \<Rightarrow> t3 \<Rightarrow> t3 \<Rightarrow> t4 option \<Rightarrow> (mha, t3) prog" where
  "MultiHeadAttention_forward q k v msk =
     pbind pget (\<lambda>self.
     pbind (plift (Linear_forward (w_q self) q)) (\<lambda>query.
     pbind (plift (Linear_forward (w_k self) k)) (\<lambda>key.
     pbind (plift (Linear_forward (w_v self) v)) (\<lambda>val.
     pbind (plift (split_heads self query)) (\<lambda>query.
     pbind (plift (split_heads self key)) (\<lambda>key.
     pbind (plift (split_heads self val)) (\<lambda>val.
     pbind (plift (attention query key val msk (Some (mha_dropout self)))) (\<lambda>(x, scores).
     pbind (pput (self\<lparr>attention_scores := Some scores\<rparr>)) (\<lambda>_.
     pbind (plift (view3 (transpose12 x) (k0 x) (mha_d_model self))) (\<lambda>x.
     plift (Linear_forward (w_o self) x)))))))))))"

section \<open>EncoderLayer\<close>

record encoderlayer =
  el_d_model :: int
  el_h :: int
  el_d_ff :: int
  el_dropout :: real
  multi_head_attention :: mha
  feed_forward :: feedforward
  residual_connection :: residual
  residual_connection_ff :: residual

definition EncoderLayer_init :: "int \<Rightarrow> int \<Rightarrow> int \<Rightarrow> real \<Rightarrow> (rng, encoderlayer) prog" where
  "EncoderLayer_init d_model h d_ff dropout =
     pbind (MultiHeadAttention_init d_model h dropout) (\<lambda>attn.
     pbind (FeedForward_init d_model d_ff dropout) (\<lambda>ff.
     pbind (ResidualConnection_init d_model dropout) (\<lambda>rc.
     pbind (ResidualConnection_init d_model dropout) (\<lambda>rc_ff.
     preturn \<lparr>el_d_model = d_model, el_h = h, el_d_ff = d_ff, el_dropout = dropout,
              multi_head_attention = attn, feed_forward = ff,
              residual_connection = rc, residual_connection_ff = rc_ff\<rparr>))))"

definition EncoderLayer_forward :: "t3 \<Rightarrow> t4 option \<Rightarrow> (encoderlayer, t3) prog" where
  "EncoderLayer_forward x msk =
     pbind pget (\<lambda>self.
     pbind (ResidualConnection_forward (residual_connection self) x
              (\<lambda>y. zoom multi_head_attention (\<lambda>a s. s\<lparr>multi_head_attention := a\<rparr>)
                      (MultiHeadAttention_forward y y y msk))) (\<lambda>x.
     pbind pget (\<lambda>self.
     ResidualConnection_forward (residual_connection_ff self) x
       (\<lambda>y. pbind pget (\<lambda>self. plift (FeedForward_forward (feed_forward self) y))))))"

definition EncoderLayer_parameters :: "encoderlayer \<Rightarrow> real list list" where
  "EncoderLayer_parameters self =
     MultiHeadAttention_parameters (multi_head_attention self)
     @ FeedForward_parameters (feed_forward self)
     @ ResidualConnection_parameters (residual_connection self)
     @ ResidualConnection_parameters (residual_connection_ff self)"

section \<open>DecoderLayer\<close>

text \<open>
  A name that a function body reads without assigning it, and that is not one of its
  parameters, is looked up among the globals of the module; \<^verbatim>\<open>NameError\<close> is raised
  when it is not there. These are the names \<^verbatim>\<open>model.py\<close> defines at its top level;
  the local variables of a caller are not in scope.
\<close>

datatype pyobj = PyInt int | PyFloat real | PyObject

definition module_globals :: "(string \<times> pyobj) list" where
  "module_globals =
     map (\<lambda>n. (n, PyObject))
       [''torch'', ''nn'', ''math'', ''InputEmbeddings'', ''PositionalEncoding'',
        ''LayerNormalization'', ''FeedForward'', ''MultiHeadAttention'',
        ''ResidualConnection'', ''EncoderLayer'', ''Encoder'', ''DecoderLayer'', ''Decoder'',
        ''ProjectionLayer'', ''Transformer'', ''build_transformer'']"

definition load_global :: "string \<Rightarrow> pyobj result" where
  "load_global name = (case map_of module_globals name of None \<Rightarrow> Inl NameError | Some v \<Rightarrow> Inr v)"

text \<open>
  \<^verbatim>\<open>DecoderLayer.__init__(self, self_attention_block, cross_attention_block,
  feed_forward_block, dropout)\<close> stores the three blocks it is given, whatever they are,
  and then evaluates \<^verbatim>\<open>ResidualConnection(d_model, dropout)\<close>. The forward pass calls the
  blocks; \<open>sa\<close>, \<open>ca\<close> and \<open>ff\<close> stand for their call methods.
\<close>

record ('a, 'c, 'f) decoderlayer =
  self_attention_block :: 'a
  cross_attention_block :: 'c
  feed_forward_block :: 'f
  residual_connections :: residual

definition DecoderLayer_init ::
  "'a \<Rightarrow> 'c \<Rightarrow> 'f \<Rightarrow> real \<Rightarrow> (rng, ('a, 'c, 'f) decoderlayer) prog" where
  "DecoderLayer_init sab cab ffb dropout =
     pbind (plift (load_global ''d_model'')) (\<lambda>v.
     case v of
       PyInt d \<Rightarrow>
         pbind (ResidualConnection_init d dropout) (\<lambda>rc.
         preturn \<lparr>self_attention_block = sab, cross_attention_block = cab,
                  feed_forward_block = ffb, residual_connections = rc\<rparr>)
     | _ \<Rightarrow> praise TypeError)"

definition DecoderLayer_forward ::
  "(t3 \<Rightarrow> t3 \<Rightarrow> t3 \<Rightarrow> t4 option \<Rightarrow> ('a, t3) prog) \<Rightarrow>
   (t3 \<Rightarrow> t3 \<Rightarrow> t3 \<Rightarrow> t4 option \<Rightarrow> ('c, t3) prog) \<Rightarrow>
   (t3 \<Rightarrow> ('f, t3) prog) \<Rightarrow>
   t3 \<Rightarrow> t3 \<Rightarrow> t4 option \<Rightarrow> t4 option \<Rightarrow> (('a, 'c, 'f) decoderlayer, t3) prog" where
  "DecoderLayer_forward sa ca ff x enc_output src_mask tgt_mask =
     pbind pget (\<lambda>self.
     pbind (ResidualConnection_forward (residual_connections self) x
              (\<lambda>y. zoom self_attention_block (\<lambda>a s. s\<lparr>self_attention_block := a\<rparr>)
                      (sa y y y tgt_mask))) (\<lambda>x.
     pbind pget (\<lambda>self.
     pbind (ResidualConnection_forward (residual_connections self) x
              (\<lambda>y. zoom cross_attention_block (\<lambda>a s. s\<lparr>cross_attention_block := a\<rparr>)
                      (ca y enc_output enc_output src_mask))) (\<lambda>x.
     pbind pget (\<lambda>self.
     ResidualConnection_forward (residual_connections self) x
       (\<lambda>y. zoom feed_forward_block (\<lambda>a s. s\<lparr>feed_forward_block := a\<rparr>) (ff y)))))))"

section \<open>Encoder and Decoder\<close>

text \<open>
  Both constructors store the list of layers and then evaluate \<^verbatim>\<open>LayerNormalization()\<close>,
  a call without the required argument.
\<close>

record encoder =
  enc_layers :: "encoderlayer list"
  enc_norm :: layernorm

record 'l decoder =
  dec_layers :: "'l list"
  dec_norm :: layernorm

definition Encoder_init :: "encoderlayer list \<Rightarrow> encoder result" where
  "Encoder_init layers =
     rbind (LayerNormalization_init None None) (\<lambda>nrm.
     Inr \<lparr>enc_layers = layers, enc_norm = nrm\<rparr>)"

definition Decoder_init :: "'l list \<Rightarrow> 'l decoder result" where
  "Decoder_init layers =
     rbind (LayerNormalization_init None None) (\<lambda>nrm.
     Inr \<lparr>dec_layers = layers, dec_norm = nrm\<rparr>)"

text \<open>
  Reading an attribute of a module by its name. An encoder has the attributes its
  constructor assigned, \<^verbatim>\<open>layers\<close> and \<^verbatim>\<open>norm\<close>; any other name that \<^verbatim>\<open>nn.Module\<close> does not
  itself define raises \<^verbatim>\<open>AttributeError\<close>.
\<close>

datatype 'l attr = Attr_layers "'l list" | Attr_norm layernorm

definition Encoder_getattr :: "encoder \<Rightarrow> string \<Rightarrow> encoderlayer attr result" where
  "Encoder_getattr self name =
     (if name = ''layers'' then Inr (Attr_layers (enc_layers self))
      else if name = ''norm'' then Inr (Attr_norm (enc_norm self))
      else Inl AttributeError)"

definition Decoder_getattr :: "'l decoder \<Rightarrow> string \<Rightarrow> 'l attr result" where
  "Decoder_getattr self name =
     (if name = ''layers'' then Inr (Attr_layers (dec_layers self))
      else if name = ''norm'' then Inr (Attr_norm (dec_norm self))
      else Inl AttributeError)"

text \<open>
  The loop \<^verbatim>\<open>for layer in layers: x = layer(...)\<close>: the layers are visited in order by
  their position, and \<open>step i x\<close> runs the forward pass of the layer at position \<open>i\<close> on
  the enclosing module.
\<close>

fun run_layers :: "nat list \<Rightarrow> (nat \<Rightarrow> t3 \<Rightarrow> ('s, t3) prog) \<Rightarrow> t3 \<Rightarrow> ('s, t3) prog" where
  "run_layers [] step x = preturn x"
| "run_layers (i # is) step x = pbind (step i x) (run_layers is step)"

definition Encoder_forward :: "t3 \<Rightarrow> t4 option \<Rightarrow> (encoder, t3) prog" where
  "Encoder_forward x msk =
     pbind pget (\<lambda>self.
     pbind (plift (Encoder_getattr self ''encoder_layers'')) (\<lambda>a.
     case a of
       Attr_layers ls \<Rightarrow>
         pbind (run_layers [0..<length ls]
                  (\<lambda>i x. zoom (\<lambda>s. enc_layers s ! i)
                            (\<lambda>l s. s\<lparr>enc_layers := (enc_layers s)[i := l]\<rparr>)
                            (EncoderLayer_forward x msk)) x) (\<lambda>x.
         pbind pget (\<lambda>self.
         pbind (plift (Encoder_getattr self ''norm'')) (\<lambda>n.
         case n of
           Attr_norm nrm \<Rightarrow> plift (LayerNormalization_forward nrm x)
         | _ \<Rightarrow> praise TypeError)))
     | _ \<Rightarrow> praise TypeError))"

definition Decoder_forward ::
  "(t3 \<Rightarrow> t3 \<Rightarrow> t4 option \<Rightarrow> t4 option \<Rightarrow> ('l, t3) prog) \<Rightarrow>
   t3 \<Rightarrow> t3 \<Rightarrow> t4 option \<Rightarrow> t4 option \<Rightarrow> ('l decoder, t3) prog" where
  "Decoder_forward layer x enc_output src_mask tgt_mask =
     pbind pget (\<lambda>self.
     pbind (plift (Decoder_getattr self ''layers'')) (\<lambda>a.
     case a of
       Attr_layers ls \<Rightarrow>
         pbind (run_layers [0..<length ls]
                  (\<lambda>i x. zoom (\<lambda>s. dec_layers s ! i)
                            (\<lambda>l s. s\<lparr>dec_layers := (dec_layers s)[i := l]\<rparr>)
                            (layer x enc_output src_mask tgt_mask)) x) (\<lambda>x.
         pbind pget (\<lambda>self.
         pbind (plift (Decoder_getattr self ''norm'')) (\<lambda>n.
         case n of
           Attr_norm nrm \<Rightarrow> plift (LayerNormalization_forward nrm x)
         | _ \<Rightarrow> praise TypeError)))
     | _ \<Rightarrow> praise TypeError))"

section \<open>ProjectionLayer\<close>

record projection =
  proj_d_model :: int
  proj_vocab_size :: int
  proj_linear :: linear

definition ProjectionLayer_init :: "int \<Rightarrow> int \<Rightarrow> (rng, projection) prog" where
  "ProjectionLayer_init d_model vocab_size =
     pbind (Linear_init d_model vocab_size) (\<lambda>l.
     preturn \<lparr>proj_d_model = d_model, proj_vocab_size = vocab_size, proj_linear = l\<rparr>)"

definition log_softmax :: "t3 \<Rightarrow> t3" where
  "log_softmax x =
     tab3 (b3 x) (s3 x) (d3 x) (\<lambda>b s d. at3 x b s d - ln (\<Sum>j<d3 x. exp (at3 x b s j)))"

definition ProjectionLayer_forward :: "projection \<Rightarrow> t3 \<Rightarrow> t3 result" where
  "ProjectionLayer_forward self x =
     rbind (Linear_forward (proj_linear self) x) (\<lambda>y. Inr (log_softmax y))"

definition ProjectionLayer_parameters :: "projection \<Rightarrow> real list list" where
  "ProjectionLayer_parameters self = Linear_parameters (proj_linear self)"

section \<open>Transformer\<close>

text \<open>
  The decoder layers of a transformer hold two attention modules and a feed-forward
  module, as \<^verbatim>\<open>build_transformer\<close> passes them.
\<close>

type_synonym dlayer = "(mha, mha, feedforward) decoderlayer"

definition FeedForward_call :: "t3 \<Rightarrow> (feedforward, t3) prog" where
  "FeedForward_call x = pbind pget (\<lambda>self. plift (FeedForward_forward self x))"

definition dlayer_forward :: "t3 \<Rightarrow> t3 \<Rightarrow> t4 option \<Rightarrow> t4 option \<Rightarrow> (dlayer, t3) prog" where
  "dlayer_forward =
     DecoderLayer_forward MultiHeadAttention_forward MultiHeadAttention_forward FeedForward_call"

definition dlayer_parameters :: "dlayer \<Rightarrow> real list list" where
  "dlayer_parameters self =
     MultiHeadAttention_parameters (self_attention_block self)
     @ MultiHeadAttention_parameters (cross_attention_block self)
     @ FeedForward_parameters (feed_forward_block self)
     @ ResidualConnection_parameters (residual_connections self)"

definition Encoder_parameters :: "encoder \<Rightarrow> real list list" where
  "Encoder_parameters self =
     concat (map EncoderLayer_parameters (enc_layers self))
     @ LayerNormalization_parameters (enc_norm self)"

definition Decoder_parameters :: "dlayer decoder \<Rightarrow> real list list" where
  "Decoder_parameters self =
     concat (map dlayer_parameters (dec_layers self))
     @ LayerNormalization_parameters (dec_norm self)"

record transformer =
  tr_encoder :: encoder
  tr_decoder :: "dlayer decoder"
  src_embed :: embeddings
  tgt_embed :: embeddings
  src_pos :: posenc
  tgt_pos :: posenc
  projection_layer :: projection

definition Transformer_init ::
  "encoder \<Rightarrow> dlayer decoder \<Rightarrow> embeddings \<Rightarrow> embeddings \<Rightarrow> posenc \<Rightarrow> posenc \<Rightarrow> projection
   \<Rightarrow> transformer" where
  "Transformer_init enc dec se te sp tp pl =
     \<lparr>tr_encoder = enc, tr_decoder = dec, src_embed = se, tgt_embed = te,
      src_pos = sp, tgt_pos = tp, projection_layer = pl\<rparr>"

definition Transformer_parameters :: "transformer \<Rightarrow> real list list" where
  "Transformer_parameters self =
     Encoder_parameters (tr_encoder self) @ Decoder_parameters (tr_decoder self)
     @ InputEmbeddings_parameters (src_embed self) @ InputEmbeddings_parameters (tgt_embed self)
     @ PositionalEncoding_parameters (src_pos self) @ PositionalEncoding_parameters (tgt_pos self)
     @ ProjectionLayer_parameters (projection_layer self)"

definition encode :: "tokens \<Rightarrow> t4 option \<Rightarrow> (transformer, t3) prog" where
  "encode src src_mask =
     pbind pget (\<lambda>self.
     pbind (plift (InputEmbeddings_forward (src_embed self) src)) (\<lambda>src.
     pbind pget (\<lambda>self.
     pbind (plift (PositionalEncoding_forward (src_pos self) src)) (\<lambda>src.
     zoom tr_encoder (\<lambda>e s. s\<lparr>tr_encoder := e\<rparr>) (Encoder_forward src src_mask)))))"

definition decode :: "t3 \<Rightarrow> t4 option \<Rightarrow> tokens \<Rightarrow> t4 option \<Rightarrow> (transformer, t3) prog" where
  "decode encoder_output src_mask tgt tgt_mask =
     pbind pget (\<lambda>self.
     pbind (plift (InputEmbeddings_forward (tgt_embed self) tgt)) (\<lambda>tgt.
     pbind pget (\<lambda>self.
     pbind (plift (PositionalEncoding_forward (tgt_pos self) tgt)) (\<lambda>tgt.
     zoom tr_decoder (\<lambda>d s. s\<lparr>tr_decoder := d\<rparr>)
       (Decoder_forward dlayer_forward tgt encoder_output src_mask tgt_mask)))))"

definition project :: "t3 \<Rightarrow> (transformer, t3) prog" where
  "project x = pbind pget (\<lambda>self. plift (ProjectionLayer_forward (projection_layer self) x))"

section \<open>build\_transformer\<close>

text \<open>
  The two loops \<^verbatim>\<open>for _ in range(N)\<close> append one layer per round; \<^verbatim>\<open>range\<close> of a number
  that is not positive is empty. The encoder loop builds an attention module and a
  feed-forward module that it does not use, and they draw from the generator all the same.
\<close>

fun encoder_blocks ::
  "nat \<Rightarrow> int \<Rightarrow> int \<Rightarrow> int \<Rightarrow> real \<Rightarrow> encoderlayer list \<Rightarrow> (rng, encoderlayer list) prog" where
  "encoder_blocks 0 d_model h d_ff dropout acc = preturn acc"
| "encoder_blocks (Suc n) d_model h d_ff dropout acc =
     pbind (MultiHeadAttention_init d_model h dropout) (\<lambda>encoder_self_attention_block.
     pbind (FeedForward_init d_model d_ff dropout) (\<lambda>feed_forward_block.
     pbind (EncoderLayer_init d_model h d_ff dropout) (\<lambda>layer.
     encoder_blocks n d_model h d_ff dropout (acc @ [layer]))))"

fun decoder_blocks ::
  "nat \<Rightarrow> int \<Rightarrow> int \<Rightarrow> int \<Rightarrow> real \<Rightarrow> dlayer list \<Rightarrow> (rng, dlayer list) prog" where
  "decoder_blocks 0 d_model h d_ff dropout acc = preturn acc"
| "decoder_blocks (Suc n) d_model h d_ff dropout acc =
     pbind (MultiHeadAttention_init d_model h dropout) (\<lambda>decoder_self_attention_block.
     pbind (MultiHeadAttention_init d_model h dropout) (\<lambda>decoder_cross_attention_block.
     pbind (FeedForward_init d_model d_ff dropout) (\<lambda>feed_forward_block.
     pbind (DecoderLayer_init decoder_self_attention_block
              decoder_cross_attention_block feed_forward_block dropout) (\<lambda>layer.
     decoder_blocks n d_model h d_ff dropout (acc @ [layer])))))"

text \<open>
  The last loop runs \<^verbatim>\<open>nn.init.xavier_uniform_\<close> on every parameter of more than one
  axis, in the order \<^verbatim>\<open>parameters()\<close> lists them: the weights of the linear maps and the
  embedding tables, each filled anew from the generator. The initialiser divides by the
  sum of the two sizes of the matrix.
\<close>

definition xavier_uniform :: "nat \<Rightarrow> nat \<Rightarrow> (rng, real list list) prog" where
  "xavier_uniform rows cols =
     (if rows + cols = 0 then praise ZeroDivisionError
      else pbind (draw (rows * cols)) (\<lambda>ws. preturn (rows_of rows cols ws)))"

definition Linear_xavier :: "linear \<Rightarrow> (rng, linear) prog" where
  "Linear_xavier l =
     pbind (xavier_uniform (out_features l) (in_features l)) (\<lambda>w. preturn (l\<lparr>weight := w\<rparr>))"

definition MultiHeadAttention_xavier :: "mha \<Rightarrow> (rng, mha) prog" where
  "MultiHeadAttention_xavier m =
     pbind (Linear_xavier (w_q m)) (\<lambda>wq.
     pbind (Linear_xavier (w_k m)) (\<lambda>wk.
     pbind (Linear_xavier (w_v m)) (\<lambda>wv.
     pbind (Linear_xavier (w_o m)) (\<lambda>wo.
     preturn (m\<lparr>w_q := wq, w_k := wk, w_v := wv, w_o := wo\<rparr>)))))"

definition FeedForward_xavier :: "feedforward \<Rightarrow> (rng, feedforward) prog" where
  "FeedForward_xavier f =
     pbind (Linear_xavier (linear1 f)) (\<lambda>l1.
     pbind (Linear_xavier (linear2 f)) (\<lambda>l2.
     preturn (f\<lparr>linear1 := l1, linear2 := l2\<rparr>)))"

definition EncoderLayer_xavier :: "encoderlayer \<Rightarrow> (rng, encoderlayer) prog" where
  "EncoderLayer_xavier l =
     pbind (MultiHeadAttention_xavier (multi_head_attention l)) (\<lambda>a.
     pbind (FeedForward_xavier (feed_forward l)) (\<lambda>f.
     preturn (l\<lparr>multi_head_attention := a, feed_forward := f\<rparr>)))"

definition dlayer_xavier :: "dlayer \<Rightarrow> (rng, dlayer) prog" where
  "dlayer_xavier l =
     pbind (MultiHeadAttention_xavier (self_attention_block l)) (\<lambda>sa.
     pbind (MultiHeadAttention_xavier (cross_attention_block l)) (\<lambda>ca.
     pbind (FeedForward_xavier (feed_forward_block l)) (\<lambda>f.
     preturn (l\<lparr>self_attention_block := sa, cross_attention_block := ca,
                feed_forward_block := f\<rparr>))))"

fun pmap :: "('a \<Rightarrow> ('s, 'b) prog) \<Rightarrow> 'a list \<Rightarrow> ('s, 'b list) prog" where
  "pmap f [] = preturn []"
| "pmap f (x # xs) = pbind (f x) (\<lambda>y. pbind (pmap f xs) (\<lambda>ys. preturn (y # ys)))"

definition Embeddings_xavier :: "embeddings \<Rightarrow> (rng, embeddings) prog" where
  "Embeddings_xavier e =
     pbind (xavier_uniform (num_embeddings (emb_embedding e)) (embedding_dim (emb_embedding e)))
       (\<lambda>w. preturn (e\<lparr>emb_embedding := (emb_embedding e)\<lparr>emb_weight := w\<rparr>\<rparr>))"

definition Transformer_xavier :: "transformer \<Rightarrow> (rng, transformer) prog" where
  "Transformer_xavier t =
     pbind (pmap EncoderLayer_xavier (enc_layers (tr_encoder t))) (\<lambda>els.
     pbind (pmap dlayer_xavier (dec_layers (tr_decoder t))) (\<lambda>dls.
     pbind (Embeddings_xavier (src_embed t)) (\<lambda>se.
     pbind (Embeddings_xavier (tgt_embed t)) (\<lambda>te.
     pbind (Linear_xavier (proj_linear (projection_layer t))) (\<lambda>pl.
     preturn (t\<lparr>tr_encoder := (tr_encoder t)\<lparr>enc_layers := els\<rparr>,
                tr_decoder := (tr_decoder t)\<lparr>dec_layers := dls\<rparr>,
                src_embed := se, tgt_embed := te,
                projection_layer := (projection_layer t)\<lparr>proj_linear := pl\<rparr>\<rparr>))))))"

definition build_transformer ::
  "int \<Rightarrow> int \<Rightarrow> int \<Rightarrow> int \<Rightarrow> int \<Rightarrow> int \<Rightarrow> real \<Rightarrow> int \<Rightarrow> int \<Rightarrow> (rng, transformer) prog" where
  "build_transformer src_vocab_size tgt_vocab_size d_model h d_ff N dropout src_seq_len tgt_seq_len =
     pbind (InputEmbeddings_init d_model src_vocab_size) (\<lambda>src_embed.
     pbind (InputEmbeddings_init d_model tgt_vocab_size) (\<lambda>tgt_embed.
     pbind (plift (PositionalEncoding_init d_model src_seq_len dropout)) (\<lambda>src_pos.
     pbind (plift (PositionalEncoding_init d_model tgt_seq_len dropout)) (\<lambda>tgt_pos.
     pbind (encoder_blocks (nat N) d_model h d_ff dropout []) (\<lambda>encoder_block.
     pbind (decoder_blocks (nat N) d_model h d_ff dropout []) (\<lambda>decoder_block.
     pbind (plift (Encoder_init encoder_block)) (\<lambda>encoder.
     pbind (plift (Decoder_init decoder_block)) (\<lambda>decoder.
     pbind (ProjectionLayer_init d_model tgt_vocab_size) (\<lambda>projection_layer.
     Transformer_xavier
       (Transformer_init encoder decoder src_embed tgt_embed src_pos tgt_pos
          projection_layer))))))))))"

section \<open>Specification-level definitions\<close>

text \<open>
  The normalized entry as the specification writes it:
  \<open>alpha * (x - mean) / (std + eps) + beta\<close>, with the statistics of the token the entry
  belongs to.
\<close>

definition normalize_entry :: "layernorm \<Rightarrow> t3 \<Rightarrow> nat \<Rightarrow> nat \<Rightarrow> nat \<Rightarrow> real" where
  "normalize_entry self x b s d =
     alpha self ! d * (at3 x b s d - row_mean x b s) / (row_std x b s + eps self) + beta self ! d"

text \<open>
  The residual wrap and the decoder layer as the specification writes them, on sublayers
  that are functions from tensors to results:
  \<open>wrap(x, f) = x + dropout(f(normalize(x)))\<close> and
  \<open>x = residual(x, self_attn(x, x, x, tgt_mask))\<close>,
  \<open>x = residual(x, cross_attn(x, enc_output, enc_output, src_mask))\<close>,
  \<open>x = residual(x, feed_forward(x))\<close>.
\<close>

definition spec_residual :: "residual \<Rightarrow> t3 \<Rightarrow> (t3 \<Rightarrow> t3 result) \<Rightarrow> t3 result" where
  "spec_residual rc x f =
     rbind (LayerNormalization_forward (rc_norm rc) x) (\<lambda>n.
     rbind (f n) (\<lambda>y.
     bop3 (+) x (Dropout_forward3 (rc_dropout rc) y)))"

definition spec_decoder_layer ::
  "residual \<Rightarrow> (t3 \<Rightarrow> t3 \<Rightarrow> t3 \<Rightarrow> t4 option \<Rightarrow> t3 result) \<Rightarrow>
   (t3 \<Rightarrow> t3 \<Rightarrow> t3 \<Rightarrow> t4 option \<Rightarrow> t3 result) \<Rightarrow> (t3 \<Rightarrow> t3 result) \<Rightarrow>
   t3 \<Rightarrow> t3 \<Rightarrow> t4 option \<Rightarrow> t4 option \<Rightarrow> t3 result" where
  "spec_decoder_layer rc self_attn cross_attn feed_fwd x enc_output src_mask tgt_mask =
     rbind (spec_residual rc x (\<lambda>x. self_attn x x x tgt_mask)) (\<lambda>x.
     rbind (spec_residual rc x (\<lambda>x. cross_attn x enc_output enc_output src_mask)) (\<lambda>x.
     spec_residual rc x feed_fwd))"

text \<open>
  Multi-head attention as the specification describes it, entry by entry. Of a projected
  tensor of width \<open>h * d_k\<close>, head \<open>j\<close> of token \<open>s\<close> is the slice of features
  \<open>j * d_k\<close> to \<open>j * d_k + d_k - 1\<close>. The raw score of query \<open>i\<close> against key \<open>t\<close> in head
  \<open>j\<close> is the dot product of the two slices over \<open>sqrt(d_k)\<close>; where the mask is zero the
  score is replaced by \<open>-1e9\<close>; the softmax runs over the keys; dropout follows; the
  context of query \<open>i\<close> at feature \<open>e\<close>, which lies in head \<open>e div d_k\<close>, is the sum over
  the keys of weight times value; the output projection is applied to the context.
\<close>

definition head_entry :: "nat \<Rightarrow> t3 \<Rightarrow> nat \<Rightarrow> nat \<Rightarrow> nat \<Rightarrow> nat \<Rightarrow> real" where
  "head_entry dk x b j s c = at3 x b s (j * dk + c)"

definition spec_scores :: "nat \<Rightarrow> t3 \<Rightarrow> t3 \<Rightarrow> nat \<Rightarrow> nat \<Rightarrow> nat \<Rightarrow> nat \<Rightarrow> real" where
  "spec_scores dk Q K b j i t =
     (\<Sum>c<dk. head_entry dk Q b j i c * head_entry dk K b j t c) / sqrt (real dk)"

definition spec_masked ::
  "t4 option \<Rightarrow> (nat \<Rightarrow> nat \<Rightarrow> nat \<Rightarrow> nat \<Rightarrow> real) \<Rightarrow> nat \<Rightarrow> nat \<Rightarrow> nat \<Rightarrow> nat \<Rightarrow> real" where
  "spec_masked msk sc b j i t =
     (case msk of
        None \<Rightarrow> sc b j i t
      | Some m \<Rightarrow> if bat4 m b j i t = 0 then - (10 ^ 9) else sc b j i t)"

definition spec_softmax ::
  "nat \<Rightarrow> (nat \<Rightarrow> nat \<Rightarrow> nat \<Rightarrow> nat \<Rightarrow> real) \<Rightarrow> nat \<Rightarrow> nat \<Rightarrow> nat \<Rightarrow> nat \<Rightarrow> real" where
  "spec_softmax n sc b j i t = exp (sc b j i t) / (\<Sum>u<n. exp (sc b j i u))"

definition spec_dropout ::
  "dropout \<Rightarrow> (nat \<Rightarrow> nat \<Rightarrow> nat \<Rightarrow> nat \<Rightarrow> real) \<Rightarrow> nat \<Rightarrow> nat \<Rightarrow> nat \<Rightarrow> nat \<Rightarrow> real" where
  "spec_dropout dr w b j i t =
     (if training dr then drop_entry dr [b, j, i, t] (w b j i t) else w b j i t)"

definition spec_weights ::
  "mha \<Rightarrow> t3 \<Rightarrow> t3 \<Rightarrow> t4 option \<Rightarrow> nat \<Rightarrow> nat \<Rightarrow> nat \<Rightarrow> nat \<Rightarrow> real" where
  "spec_weights self Q K msk =
     spec_dropout (mha_dropout self)
       (spec_softmax (s3 K) (spec_masked msk (spec_scores (nat (mha_d_k self)) Q K)))"

definition spec_context ::
  "nat \<Rightarrow> nat \<Rightarrow> (nat \<Rightarrow> nat \<Rightarrow> nat \<Rightarrow> nat \<Rightarrow> real) \<Rightarrow> t3 \<Rightarrow> nat \<Rightarrow> nat \<Rightarrow> nat \<Rightarrow> real" where
  "spec_context dk n w V b i e = (\<Sum>t<n. w b (e div dk) i t * at3 V b t e)"

definition spec_attend :: "mha \<Rightarrow> t3 \<Rightarrow> t3 \<Rightarrow> t3 \<Rightarrow> t4 option \<Rightarrow> t3 result" where
  "spec_attend self q k v msk =
     rbind (Linear_forward (w_q self) q) (\<lambda>Q.
     rbind (Linear_forward (w_k self) k) (\<lambda>K.
     rbind (Linear_forward (w_v self) v) (\<lambda>V.
     Linear_forward (w_o self)
       (tab3 (b3 q) (s3 q) (nat (mha_d_model self))
          (spec_context (nat (mha_d_k self)) (s3 k) (spec_weights self Q K msk) V)))))"

text \<open>
  A linear map as its constructor leaves it: a weight of \<open>out_features\<close> rows of
  \<open>in_features\<close> entries and a bias of \<open>out_features\<close> entries. An attention module as
  its constructor leaves it between forward passes: positive head count and head width
  that multiply to the model width, and four such linear maps of that width. A mask fits
  the scores of shape (B, H, Sq, Sk) when each of its axes has that size or 1.
\<close>

definition linear_wf :: "linear \<Rightarrow> bool" where
  "linear_wf l \<longleftrightarrow>
     length (weight l) = out_features l \<and> list_all (\<lambda>r. length r = in_features l) (weight l)
     \<and> length (bias l) = out_features l"

definition mha_wf :: "mha \<Rightarrow> bool" where
  "mha_wf self \<longleftrightarrow>
     0 < mha_h self \<and> 0 < mha_d_k self \<and> mha_d_model self = mha_h self * mha_d_k self
     \<and> list_all (\<lambda>l. linear_wf l \<and> in_features l = nat (mha_d_model self)
                    \<and> out_features l = nat (mha_d_model self))
          [w_q self, w_k self, w_v self, w_o self]"

definition mask_fits :: "t4 option \<Rightarrow> nat \<Rightarrow> nat \<Rightarrow> nat \<Rightarrow> nat \<Rightarrow> bool" where
  "mask_fits msk B H Sq Sk =
     (case msk of
        None \<Rightarrow> True
      | Some m \<Rightarrow> (k0 m = B \<or> k0 m = 1) \<and> (k1 m = H \<or> k1 m = 1)
                 \<and> (k2 m = Sq \<or> k2 m = 1) \<and> (k3 m = Sk \<or> k3 m = 1))"

section \<open>Basic facts\<close>

subsection \<open>Results and stateful computations\<close>

lemma rbind_simps [simp]:
  "rbind (Inl e) f = Inl e"
  "rbind (Inr v) f = f v"
  by (simp_all add: rbind_def)

lemma pbind_simps:
  "pbind (preturn v) f s = f v s"
  "pbind (praise e) f s = (Inl e, s)"
  "pbind (plift (Inr v)) f s = f v s"
  "pbind (plift (Inl e)) f s = (Inl e, s)"
  "pbind pget g s = g s s"
  "pbind (pput s') h s = h () s'"
  by (simp_all add: pbind_def preturn_def praise_def plift_def pget_def pput_def)

lemma pbind_Inr: "m s = (Inr v, s') \<Longrightarrow> pbind m f s = f v s'"
  by (simp add: pbind_def)

lemma pbind_Inl: "m s = (Inl e, s') \<Longrightarrow> pbind m f s = (Inl e, s')"
  by (simp add: pbind_def)

subsection \<open>Indices of row-major data\<close>

lemma index_bound: "i < N \<Longrightarrow> j < D \<Longrightarrow> i * D + j < N * (D::nat)"
proof -
  assume i: "i < N" and j: "j < D"
  have "i * D + j < i * D + D" using j by simp
  also have "\<dots> = Suc i * D" by simp
  also have "\<dots> \<le> N * D" using i by (intro mult_le_mono1) simp
  finally show ?thesis .
qed

lemma index_div: "j < D \<Longrightarrow> (i * D + j) div D = (i::nat)"
  by simp

lemma index_mod: "j < D \<Longrightarrow> (i * D + j) mod D = (j::nat)"
  by simp

lemma shape_tab2 [simp]: "n2 (tab2 N D f) = N" "d2 (tab2 N D f) = D"
  by (simp_all add: tab2_def)

lemma shape_tab3 [simp]: "b3 (tab3 B S D f) = B" "s3 (tab3 B S D f) = S" "d3 (tab3 B S D f) = D"
  by (simp_all add: tab3_def)

lemma shape_tab4 [simp]:
  "k0 (tab4 A B C D f) = A" "k1 (tab4 A B C D f) = B"
  "k2 (tab4 A B C D f) = C" "k3 (tab4 A B C D f) = D"
  by (simp_all add: tab4_def)

lemma at2_tab2 [simp]: "i < N \<Longrightarrow> j < D \<Longrightarrow> at2 (tab2 N D f) i j = f i j"
  using index_bound [of i N j D] by (simp add: at2_def tab2_def)

lemma at3_tab3 [simp]:
  assumes "b < B" and "s < S" and "d < D"
  shows "at3 (tab3 B S D f) b s d = f b s d"
proof -
  have 1: "b * S + s < B * S" using assms by (simp add: index_bound)
  have 2: "(b * S + s) * D + d < B * S * D" using 1 assms(3) by (rule index_bound)
  show ?thesis
    using 2 assms by (simp add: at3_def tab3_def)
qed

lemma at4_tab4 [simp]:
  assumes "a < A" and "b < B" and "c < C" and "d < D"
  shows "at4 (tab4 A B C D f) a b c d = f a b c d"
proof -
  have 1: "a * B + b < A * B" using assms by (simp add: index_bound)
  have 2: "(a * B + b) * C + c < A * B * C" using 1 assms(3) by (rule index_bound)
  have 3: "((a * B + b) * C + c) * D + d < A * B * C * D" using 2 assms(4) by (rule index_bound)
  show ?thesis
    using 3 assms by (simp add: at4_def tab4_def)
qed

lemma tab2_cong:
  assumes "\<And>i j. i < N \<Longrightarrow> j < D \<Longrightarrow> f i j = g i j"
  shows "tab2 N D f = tab2 N D g"
proof -
  have "f (k div D) (k mod D) = g (k div D) (k mod D)" if "k < N * D" for k
  proof -
    have "0 < D" using that by (cases D) auto
    moreover have "k div D < N" using that by (simp add: less_mult_imp_div_less)
    ultimately show ?thesis by (intro assms) simp_all
  qed
  then show ?thesis by (simp add: tab2_def)
qed

lemma tab3_cong:
  assumes "\<And>b s d. b < B \<Longrightarrow> s < S \<Longrightarrow> d < D \<Longrightarrow> f b s d = g b s d"
  shows "tab3 B S D f = tab3 B S D g"
proof -
  have "f (k div D div S) (k div D mod S) (k mod D) = g (k div D div S) (k div D mod S) (k mod D)"
    if "k < B * S * D" for k
  proof -
    have D: "0 < D" using that by (cases D) auto
    have "k div D < B * S" using that by (simp add: less_mult_imp_div_less)
    then have S: "0 < S" and B: "k div D div S < B"
      by (cases S, auto simp: less_mult_imp_div_less)
    show ?thesis using D S B by (intro assms) simp_all
  qed
  then show ?thesis by (simp add: tab3_def)
qed

lemma tab4_cong:
  assumes "\<And>a b c d. a < A \<Longrightarrow> b < B \<Longrightarrow> c < C \<Longrightarrow> d < D \<Longrightarrow> f a b c d = g a b c d"
  shows "tab4 A B C D f = tab4 A B C D g"
proof -
  have "f (k div D div C div B) (k div D div C mod B) (k div D mod C) (k mod D)
      = g (k div D div C div B) (k div D div C mod B) (k div D mod C) (k mod D)"
    if "k < A * B * C * D" for k
  proof -
    have D: "0 < D" using that by (cases D) auto
    have "k div D < A * B * C" using that by (simp add: less_mult_imp_div_less)
    then have C: "0 < C" and 1: "k div D div C < A * B"
      by (cases C, auto simp: less_mult_imp_div_less)
    from 1 have B: "0 < B" and A: "k div D div C div B < A"
      by (cases B, auto simp: less_mult_imp_div_less)
    show ?thesis using D C B A by (intro assms) simp_all
  qed
  then show ?thesis by (simp add: tab4_def)
qed

lemma wf3_tab3 [simp]: "wf3 (tab3 B S D f)"
  by (simp add: wf3_def tab3_def)

lemma wf4_tab4 [simp]: "wf4 (tab4 A B C D f)"
  by (simp add: wf4_def tab4_def)

lemma bdim_same [simp]: "bdim a a = Inr a"
  by (simp add: bdim_def)

lemma bdim_one [simp]: "bdim a 1 = Inr a" "bdim 1 a = Inr a" "bdim a (Suc 0) = Inr a" "bdim (Suc 0) a = Inr a"
  by (auto simp: bdim_def)

lemma bidx_simps [simp]: "bidx 1 i = 0" "bidx (Suc 0) i = 0" "i < n \<Longrightarrow> bidx n i = i"
  by (auto simp: bidx_def)

subsection \<open>Broadcasting against a tensor of the same shape, a vector, a column\<close>

lemma bat3_in [simp]: "b < b3 x \<Longrightarrow> s < s3 x \<Longrightarrow> d < d3 x \<Longrightarrow> bat3 x b s d = at3 x b s d"
  by (simp add: bat3_def)

lemma bat3_vec3 [simp]: "d < length v \<Longrightarrow> bat3 (vec3 v) b s d = v ! d"
  by (simp add: bat3_def vec3_def at3_def)

lemma shape_vec3 [simp]: "b3 (vec3 v) = 1" "s3 (vec3 v) = 1" "d3 (vec3 v) = length v"
  by (simp_all add: vec3_def)

lemma bat3_column [simp]:
  "b < B \<Longrightarrow> s < S \<Longrightarrow> bat3 (tab3 B S 1 f) b s d = f b s 0"
  by (simp add: bat3_def)

lemma bop3_same:
  assumes "b3 y = b3 x" and "s3 y = s3 x" and "d3 y = d3 x"
  shows "bop3 f x y = Inr (tab3 (b3 x) (s3 x) (d3 x) (\<lambda>b s d. f (at3 x b s d) (at3 y b s d)))"
  using assms by (auto simp: bop3_def intro!: tab3_cong)

lemma bop3_column:
  assumes "b3 y = b3 x" and "s3 y = s3 x" and "d3 y = 1"
  shows "bop3 f x y = Inr (tab3 (b3 x) (s3 x) (d3 x) (\<lambda>b s d. f (at3 x b s d) (at3 y b s 0)))"
  using assms by (auto simp: bop3_def bat3_def intro!: tab3_cong)

lemma bop3_vec_left:
  assumes "length v = d3 x"
  shows "bop3 f (vec3 v) x = Inr (tab3 (b3 x) (s3 x) (d3 x) (\<lambda>b s d. f (v ! d) (at3 x b s d)))"
  using assms by (auto simp: bop3_def intro!: tab3_cong)

lemma bop3_vec_right:
  assumes "length v = d3 x"
  shows "bop3 f x (vec3 v) = Inr (tab3 (b3 x) (s3 x) (d3 x) (\<lambda>b s d. f (at3 x b s d) (v ! d)))"
  using assms by (auto simp: bop3_def intro!: tab3_cong)

subsection \<open>Layer normalization\<close>

lemma LayerNormalization_forward_tab:
  assumes "length (alpha self) = d3 x" and "length (beta self) = d3 x"
  shows "LayerNormalization_forward self x =
           Inr (tab3 (b3 x) (s3 x) (d3 x) (normalize_entry self x))"
proof -
  let ?B = "b3 x" and ?S = "s3 x" and ?D = "d3 x"
  let ?c = "tab3 ?B ?S ?D (\<lambda>b s d. at3 x b s d - at3 (mean_last x) b s 0)"
  let ?m = "tab3 ?B ?S ?D (\<lambda>b s d. alpha self ! d * at3 ?c b s d)"
  let ?e = "map3 (\<lambda>v. v + eps self) (std_last x)"
  let ?q = "tab3 ?B ?S ?D (\<lambda>b s d. at3 ?m b s d / at3 ?e b s 0)"
  have 1: "bop3 (-) x (mean_last x) = Inr ?c"
    by (rule bop3_column) (simp_all add: mean_last_def)
  have 2: "bop3 (*) (vec3 (alpha self)) ?c = Inr ?m"
    using bop3_vec_left [of "alpha self" ?c "(*)"] assms(1) by simp
  have 3: "bop3 (/) ?m ?e = Inr ?q"
    using bop3_column [of ?e ?m "(/)"] by (simp add: map3_def std_last_def)
  have 4: "bop3 (+) ?q (vec3 (beta self))
             = Inr (tab3 ?B ?S ?D (\<lambda>b s d. at3 ?q b s d + beta self ! d))"
    using bop3_vec_right [of "beta self" ?q "(+)"] assms(2) by simp
  have 5: "tab3 ?B ?S ?D (\<lambda>b s d. at3 ?q b s d + beta self ! d)
             = tab3 ?B ?S ?D (normalize_entry self x)"
    by (rule tab3_cong) (simp add: normalize_entry_def map3_def std_last_def mean_last_def)
  show ?thesis
    unfolding LayerNormalization_forward_def Let_def
    by (simp only: 1 2 3 4 5 rbind_simps)
qed

section \<open>Layer normalization and the residual connection\<close>

text \<open>
  Claim C7. On a hidden state whose feature axis has the width of \<open>alpha\<close> and \<open>beta\<close>,
  at least two, layer normalization returns the tensor of the same shape whose entry at
  (b, s, d) is \<open>alpha[d] * (x[b,s,d] - mean) / (std + eps) + beta[d]\<close>, where \<open>mean\<close> and
  \<open>std\<close> are the mean and the sample standard deviation of the features of token (b, s)
  alone. A module constructed with the default \<open>eps\<close> has \<open>eps > 0\<close>, \<open>alpha\<close> all ones and
  \<open>beta\<close> all zeros, and these two vectors are its parameters.
\<close>

theorem LayerNormalization_formula:
  assumes "length (alpha self) = d3 x" and "length (beta self) = d3 x" and "2 \<le> d3 x"
  shows "LayerNormalization_forward self x =
           Inr (tab3 (b3 x) (s3 x) (d3 x)
                  (\<lambda>b s d. alpha self ! d * (at3 x b s d - row_mean x b s)
                               / (row_std x b s + eps self) + beta self ! d))
       \<and> (\<forall>b s. row_mean x b s = (\<Sum>d<d3 x. at3 x b s d) / real (d3 x)
              \<and> row_std x b s =
                  sqrt ((\<Sum>d<d3 x. (at3 x b s d - row_mean x b s)\<^sup>2) / (real (d3 x) - 1)))
       \<and> (\<forall>n\<ge>0. \<exists>m. LayerNormalization_init (Some n) None = Inr m
              \<and> 0 < eps m \<and> alpha m = replicate (nat n) 1 \<and> beta m = replicate (nat n) 0
              \<and> LayerNormalization_parameters m = [alpha m, beta m])"
proof (intro conjI allI impI)
  show "LayerNormalization_forward self x =
          Inr (tab3 (b3 x) (s3 x) (d3 x)
                 (\<lambda>b s d. alpha self ! d * (at3 x b s d - row_mean x b s)
                              / (row_std x b s + eps self) + beta self ! d))"
    using LayerNormalization_forward_tab [OF assms(1,2)]
    by (simp add: normalize_entry_def [abs_def])
next
  fix b s
  show "row_mean x b s = (\<Sum>d<d3 x. at3 x b s d) / real (d3 x)"
    by (simp add: row_mean_def)
  show "row_std x b s = sqrt ((\<Sum>d<d3 x. (at3 x b s d - row_mean x b s)\<^sup>2) / (real (d3 x) - 1))"
    by (simp add: row_std_def)
next
  fix n :: int assume "0 \<le> n"
  then show "\<exists>m. LayerNormalization_init (Some n) None = Inr m
              \<and> 0 < eps m \<and> alpha m = replicate (nat n) 1 \<and> beta m = replicate (nat n) 0
              \<and> LayerNormalization_parameters m = [alpha m, beta m]"
    by (simp add: LayerNormalization_init_def LayerNormalization_parameters_def)
qed

lemma upt_0_2: "[0..<2] = [0, Suc 0]"
  by (simp add: upt_rec numeral_2_eq_2)

lemma lessThan_2: "{..<2::nat} = {0, Suc 0}"
  by auto

theorem LayerNormalization_formula_witness:
  "LayerNormalization_forward
      \<lparr>ln_d_model = 2, eps = 1 / 10 ^ 6, alpha = [1, 1], beta = [0, 0]\<rparr>
      \<lparr>b3 = 1, s3 = 1, d3 = 2, data3 = [1, 3]\<rparr>
     = Inr \<lparr>b3 = 1, s3 = 1, d3 = 2,
            data3 = [- 1 / (sqrt 2 + 1 / 10 ^ 6), 1 / (sqrt 2 + 1 / 10 ^ 6)]\<rparr>"
  using LayerNormalization_formula
          [of "\<lparr>ln_d_model = 2, eps = 1 / 10 ^ 6, alpha = [1, 1], beta = [0, 0]\<rparr>"
              "\<lparr>b3 = 1, s3 = 1, d3 = 2, data3 = [1, 3]\<rparr>"]
  by (simp add: tab3_def upt_0_2 lessThan_2 row_mean_def row_std_def at3_def)

text \<open>
  Claim C8. The residual wrap normalizes first, gives the normalized tensor to the
  sublayer, applies dropout to what the sublayer returns and adds the result to the
  input; an exception of the normalization or of the sublayer is passed on, with the
  assignments the sublayer had made. With dropout in evaluation mode and the identity as
  sublayer it returns \<open>x + normalize(x)\<close>, which for a normalization of the width of
  \<open>x\<close> is the tensor of entries \<open>x[b,s,d] + normalize(x)[b,s,d]\<close>.
\<close>

theorem ResidualConnection_prenorm:
  "ResidualConnection_forward self x sublayer st =
     (case LayerNormalization_forward (rc_norm self) x of
        Inl e \<Rightarrow> (Inl e, st)
      | Inr n \<Rightarrow>
          (case sublayer n st of
             (Inl e, st') \<Rightarrow> (Inl e, st')
           | (Inr y, st') \<Rightarrow> (bop3 (+) x (Dropout_forward3 (rc_dropout self) y), st')))
   \<and> (\<not> training (rc_dropout self) \<longrightarrow>
        ResidualConnection_forward self x preturn st =
          (rbind (LayerNormalization_forward (rc_norm self) x) (\<lambda>n. bop3 (+) x n), st))
   \<and> (\<not> training (rc_dropout self) \<and> length (alpha (rc_norm self)) = d3 x
        \<and> length (beta (rc_norm self)) = d3 x \<longrightarrow>
        ResidualConnection_forward self x preturn st =
          (Inr (tab3 (b3 x) (s3 x) (d3 x)
                  (\<lambda>b s d. at3 x b s d + normalize_entry (rc_norm self) x b s d)), st))"
proof (intro conjI impI)
  show "ResidualConnection_forward self x sublayer st =
     (case LayerNormalization_forward (rc_norm self) x of
        Inl e \<Rightarrow> (Inl e, st)
      | Inr n \<Rightarrow>
          (case sublayer n st of
             (Inl e, st') \<Rightarrow> (Inl e, st')
           | (Inr y, st') \<Rightarrow> (bop3 (+) x (Dropout_forward3 (rc_dropout self) y), st')))"
    by (simp add: ResidualConnection_forward_def pbind_def plift_def
             split: sum.splits prod.splits)
next
  assume "\<not> training (rc_dropout self)"
  then show "ResidualConnection_forward self x preturn st =
          (rbind (LayerNormalization_forward (rc_norm self) x) (\<lambda>n. bop3 (+) x n), st)"
    by (simp add: ResidualConnection_forward_def pbind_def plift_def preturn_def
          Dropout_forward3_def rbind_def split: sum.splits)
next
  assume a: "\<not> training (rc_dropout self) \<and> length (alpha (rc_norm self)) = d3 x
        \<and> length (beta (rc_norm self)) = d3 x"
  then have n: "LayerNormalization_forward (rc_norm self) x =
      Inr (tab3 (b3 x) (s3 x) (d3 x) (normalize_entry (rc_norm self) x))"
    by (simp add: LayerNormalization_forward_tab)
  have "bop3 (+) x (tab3 (b3 x) (s3 x) (d3 x) (normalize_entry (rc_norm self) x))
       = Inr (tab3 (b3 x) (s3 x) (d3 x)
                  (\<lambda>b s d. at3 x b s d + normalize_entry (rc_norm self) x b s d))"
    by (subst bop3_same) (auto intro!: tab3_cong)
  with a n show "ResidualConnection_forward self x preturn st =
          (Inr (tab3 (b3 x) (s3 x) (d3 x)
                  (\<lambda>b s d. at3 x b s d + normalize_entry (rc_norm self) x b s d)), st)"
    by (simp add: ResidualConnection_forward_def pbind_def plift_def preturn_def
          Dropout_forward3_def)
qed

theorem ResidualConnection_prenorm_witness:
  "ResidualConnection_forward
      \<lparr>rc_d_model = 2,
       rc_norm = \<lparr>ln_d_model = 2, eps = 1 / 10 ^ 6, alpha = [1, 1], beta = [0, 0]\<rparr>,
       rc_dropout = \<lparr>prob = 1 / 10, training = False, keep = (\<lambda>_. True)\<rparr>\<rparr>
      \<lparr>b3 = 1, s3 = 1, d3 = 2, data3 = [1, 3]\<rparr> preturn ()
     = (Inr \<lparr>b3 = 1, s3 = 1, d3 = 2,
             data3 = [1 - 1 / (sqrt 2 + 1 / 10 ^ 6), 3 + 1 / (sqrt 2 + 1 / 10 ^ 6)]\<rparr>, ())"
  using ResidualConnection_prenorm
          [where self = "\<lparr>rc_d_model = 2,
                rc_norm = \<lparr>ln_d_model = 2, eps = 1 / 10 ^ 6, alpha = [1, 1], beta = [0, 0]\<rparr>,
                rc_dropout = \<lparr>prob = 1 / 10, training = False, keep = (\<lambda>_. True)\<rparr>\<rparr>"
             and x = "\<lparr>b3 = 1, s3 = 1, d3 = 2, data3 = [1, 3]\<rparr>" and st = "()",
           THEN conjunct2, THEN conjunct2]
  by (simp add: tab3_def upt_0_2 lessThan_2 row_mean_def row_std_def at3_def normalize_entry_def)

section \<open>Construction of the multi-head attention\<close>

lemma rows_of_shape:
  assumes "length xs = k * n"
  shows "length (rows_of k n xs) = k" and "list_all (\<lambda>r. length r = n) (rows_of k n xs)"
proof -
  show "length (rows_of k n xs) = k"
    by (simp add: rows_of_def)
  have "n \<le> k * n - i * n" if "i < k" for i
  proof -
    have "Suc i * n \<le> k * n" using that by (intro mult_le_mono1) simp
    then show ?thesis by simp
  qed
  then show "list_all (\<lambda>r. length r = n) (rows_of k n xs)"
    by (simp add: rows_of_def list_all_iff assms)
qed

lemma Linear_init_ok:
  assumes "0 \<le> d_in" and "0 \<le> d_out"
  shows "\<exists>l g'. Linear_init d_in d_out g = (Inr l, g') \<and> linear_wf l
           \<and> in_features l = nat d_in \<and> out_features l = nat d_out
           \<and> bernoulli g' = bernoulli g"
  using assms rows_of_shape [of "map (stream g) [0..<nat d_out * nat d_in]" "nat d_out" "nat d_in"]
  by (simp add: Linear_init_def pbind_def draw_def preturn_def linear_wf_def)

text \<open>
  Claim C9. For a model width that is not negative, a head count that is not zero and a
  dropout probability in [0, 1], constructing the multi-head attention raises exactly
  when \<open>d_model % h \<noteq> 0\<close>; it then raises the assertion at once, before any parameter is
  drawn. When \<open>d_model % h = 0\<close> the construction returns a module whose per-head width
  is \<open>d_model // h\<close>, and \<open>h\<close> heads of that width make up \<open>d_model\<close>.
\<close>

theorem MultiHeadAttention_init_divisible:
  assumes "0 \<le> d_model" and "h \<noteq> 0" and "0 \<le> pr" and "pr \<le> 1"
  shows "(isl (fst (MultiHeadAttention_init d_model h pr g)) \<longleftrightarrow> d_model mod h \<noteq> 0)
       \<and> (d_model mod h \<noteq> 0 \<longrightarrow>
            MultiHeadAttention_init d_model h pr g = (Inl AssertionError, g))
       \<and> (d_model mod h = 0 \<longrightarrow>
            (\<exists>m g'. MultiHeadAttention_init d_model h pr g = (Inr m, g')
               \<and> mha_d_k m = d_model div h \<and> mha_h m * mha_d_k m = mha_d_model m
               \<and> mha_d_model m = d_model \<and> mha_h m = h))"
proof (cases "d_model mod h = 0")
  case False
  with assms show ?thesis
    by (simp add: MultiHeadAttention_init_def praise_def)
next
  case True
  obtain l1 g1 where l1: "Linear_init d_model d_model g = (Inr l1, g1)"
    using Linear_init_ok [OF assms(1) assms(1)] by blast
  obtain l2 g2 where l2: "Linear_init d_model d_model g1 = (Inr l2, g2)"
    using Linear_init_ok [OF assms(1) assms(1)] by blast
  obtain l3 g3 where l3: "Linear_init d_model d_model g2 = (Inr l3, g3)"
    using Linear_init_ok [OF assms(1) assms(1)] by blast
  obtain l4 g4 where l4: "Linear_init d_model d_model g3 = (Inr l4, g4)"
    using Linear_init_ok [OF assms(1) assms(1)] by blast
  have dvd: "h * (d_model div h) = d_model"
    using True by (simp add: mod_0_imp_dvd)
  from True assms l1 l2 l3 l4 dvd show ?thesis
    by (simp add: MultiHeadAttention_init_def pbind_def pget_def preturn_def Dropout_init_def)
qed

theorem MultiHeadAttention_init_divisible_witness:
  "(isl (fst (MultiHeadAttention_init 512 8 (1 / 10)
                \<lparr>stream = (\<lambda>_. 0), bernoulli = (\<lambda>_. True)\<rparr>)) \<longleftrightarrow> (512 :: int) mod 8 \<noteq> 0)
 \<and> (\<exists>m g'. MultiHeadAttention_init 512 8 (1 / 10)
              \<lparr>stream = (\<lambda>_. 0), bernoulli = (\<lambda>_. True)\<rparr> = (Inr m, g') \<and> mha_d_k m = 64)
 \<and> MultiHeadAttention_init 6 4 (1 / 10) \<lparr>stream = (\<lambda>_. 0), bernoulli = (\<lambda>_. True)\<rparr>
     = (Inl AssertionError, \<lparr>stream = (\<lambda>_. 0), bernoulli = (\<lambda>_. True)\<rparr>)"
  using MultiHeadAttention_init_divisible
          [of 512 8 "1 / 10" "\<lparr>stream = (\<lambda>_. 0), bernoulli = (\<lambda>_. True)\<rparr>"]
        MultiHeadAttention_init_divisible
          [of 6 4 "1 / 10" "\<lparr>stream = (\<lambda>_. 0), bernoulli = (\<lambda>_. True)\<rparr>"]
  by auto

section \<open>Construction of the whole model\<close>

lemma pbind_raises:
  assumes "\<And>v s'. isl (fst (f v s'))"
  shows "isl (fst (pbind m f s))"
proof (cases "m s")
  case (Pair r s')
  then show ?thesis
    using assms by (cases r) (simp_all add: pbind_def)
qed

lemma LayerNormalization_init_no_argument: "LayerNormalization_init None e = Inl TypeError"
  by (simp add: LayerNormalization_init_def)

lemma Encoder_init_raises: "Encoder_init layers = Inl TypeError"
  by (simp add: Encoder_init_def LayerNormalization_init_no_argument)

lemma Decoder_init_raises: "Decoder_init layers = Inl TypeError"
  by (simp add: Decoder_init_def LayerNormalization_init_no_argument)

lemma load_global_d_model: "load_global ''d_model'' = Inl NameError"
  by (simp add: load_global_def module_globals_def)

lemma DecoderLayer_init_raises: "DecoderLayer_init sab cab ffb dropout g = (Inl NameError, g)"
  by (simp add: DecoderLayer_init_def load_global_d_model pbind_simps)

lemma decoder_blocks_raises:
  "isl (fst (decoder_blocks (Suc n) d_model h d_ff dropout acc g))"
  by (simp only: decoder_blocks.simps)
     (rule pbind_raises, rule pbind_raises, rule pbind_raises,
      simp add: DecoderLayer_init_raises pbind_def)

text \<open>
  Claim C2. Whatever the configuration and whatever the state of the generator,
  \<^verbatim>\<open>build_transformer\<close> raises and returns no transformer. The constructors of the
  encoder and of the decoder raise \<^verbatim>\<open>TypeError\<close> on every list of layers, because
  \<^verbatim>\<open>LayerNormalization()\<close> lacks its required argument, and the constructor of a decoder
  layer raises \<^verbatim>\<open>NameError\<close> on every argument, because \<^verbatim>\<open>d_model\<close> is not a name in
  its scope; with at least one layer the decoder loop already raises.
\<close>

theorem build_transformer_raises:
  "isl (fst (build_transformer src_vocab_size tgt_vocab_size d_model h d_ff N dropout
               src_seq_len tgt_seq_len g))
   \<and> Encoder_init els = Inl TypeError
   \<and> Decoder_init (dls :: dlayer list) = Inl TypeError
   \<and> LayerNormalization_init None e = Inl TypeError
   \<and> DecoderLayer_init (sab :: mha) (cab :: mha) (ffb :: feedforward) dropout g
       = (Inl NameError, g)
   \<and> isl (fst (decoder_blocks (Suc n) d_model h d_ff dropout acc g))"
proof -
  have "isl (fst (build_transformer src_vocab_size tgt_vocab_size d_model h d_ff N dropout
               src_seq_len tgt_seq_len g))"
    unfolding build_transformer_def
    by (rule pbind_raises, rule pbind_raises, rule pbind_raises, rule pbind_raises,
        rule pbind_raises, rule pbind_raises, simp add: Encoder_init_raises pbind_simps)
  then show ?thesis
    by (intro conjI Encoder_init_raises Decoder_init_raises LayerNormalization_init_no_argument
          DecoderLayer_init_raises decoder_blocks_raises)
qed

theorem build_transformer_raises_witness:
  "isl (fst (build_transformer 1000 1000 512 8 2048 6 (1 / 10) 350 350
               \<lparr>stream = (\<lambda>_. 0), bernoulli = (\<lambda>_. True)\<rparr>))"
  using build_transformer_raises
          [of 1000 1000 512 8 2048 6 "1 / 10" 350 350
              "\<lparr>stream = (\<lambda>_. 0), bernoulli = (\<lambda>_. True)\<rparr>"]
  by simp

section \<open>The forward passes that raise\<close>

lemma Encoder_forward_no_attribute:
  "Encoder_forward x msk self = (Inl AttributeError, self)"
  by (simp add: Encoder_forward_def Encoder_getattr_def pbind_def pget_def plift_def)

text \<open>
  Claim C3, the encoder. \<^verbatim>\<open>Encoder.forward\<close> reads \<^verbatim>\<open>self.encoder_layers\<close>, an attribute
  that no encoder has: on every encoder, input and mask it raises \<^verbatim>\<open>AttributeError\<close>
  before any layer runs, and leaves the encoder as it was.
\<close>

theorem Encoder_forward_raises:
  "Encoder_forward x msk self = (Inl AttributeError, self)"
  by (rule Encoder_forward_no_attribute)

text \<open>
  Claim C6. \<^verbatim>\<open>PositionalEncoding.forward\<close> raises \<^verbatim>\<open>TypeError\<close> on every module and
  every input: it calls \<^verbatim>\<open>x.shape\<close>, which is not callable, before anything is added.
\<close>

theorem PositionalEncoding_forward_raises:
  "PositionalEncoding_forward self x = Inl TypeError"
  by (simp add: PositionalEncoding_forward_def Size_call_def)

section \<open>The decoder stack and the decoder layer\<close>

text \<open>
  The decoder, the sibling of the encoder, reads \<^verbatim>\<open>self.layers\<close>: its forward pass runs
  the stored layers in order, each on the output of the one before, and normalizes the
  output of the last.
\<close>

lemma Decoder_forward_sequential:
  "Decoder_forward layer x enc_output src_mask tgt_mask self =
     pbind (run_layers [0..<length (dec_layers self)]
              (\<lambda>i x. zoom (\<lambda>s. dec_layers s ! i)
                        (\<lambda>l s. s\<lparr>dec_layers := (dec_layers s)[i := l]\<rparr>)
                        (layer x enc_output src_mask tgt_mask)) x)
       (\<lambda>y s. (LayerNormalization_forward (dec_norm s) y, s)) self"
proof -
  have "(\<lambda>x. pbind pget (\<lambda>self. pbind (plift (Decoder_getattr self ''norm''))
            (\<lambda>n. case n of Attr_norm nrm \<Rightarrow> plift (LayerNormalization_forward nrm x)
                   | _ \<Rightarrow> praise TypeError)))
      = (\<lambda>y (s :: 'a decoder). (LayerNormalization_forward (dec_norm s) y, s))"
    by (intro ext) (simp add: pbind_simps Decoder_getattr_def plift_def)
  then show ?thesis
    by (simp add: Decoder_forward_def pbind_simps Decoder_getattr_def)
qed

lemma pbind_split:
  "pbind m f s = (case fst (m s) of Inl e \<Rightarrow> (Inl e, snd (m s)) | Inr v \<Rightarrow> f v (snd (m s)))"
  by (simp add: pbind_def split: prod.splits sum.splits)

lemma pbind_residual_split:
  "pbind (ResidualConnection_forward rc x sub) f s =
     (case fst (ResidualConnection_forward rc x sub s) of
        Inl e \<Rightarrow> (Inl e, snd (ResidualConnection_forward rc x sub s))
      | Inr v \<Rightarrow> f v (snd (ResidualConnection_forward rc x sub s)))"
  by (rule pbind_split)

lemma residual_zoom_fst:
  "fst (ResidualConnection_forward rc x (\<lambda>y. zoom get put (f y)) s)
     = spec_residual rc x (\<lambda>y. fst (f y (get s)))"
  by (simp add: ResidualConnection_forward_def spec_residual_def pbind_def plift_def zoom_def
        rbind_def split: sum.splits prod.splits)

lemma residual_zoom_snd:
  "snd (ResidualConnection_forward rc x (\<lambda>y. zoom get put (f y)) s)
     = (case LayerNormalization_forward (rc_norm rc) x of
          Inl e \<Rightarrow> s
        | Inr n \<Rightarrow> put (snd (f n (get s))) s)"
  by (simp add: ResidualConnection_forward_def pbind_def plift_def zoom_def
        split: sum.splits prod.splits)

text \<open>
  Claim C4. The result of a decoder layer is the three residual wraps in sequence: the
  first around the self-attention block called with the normalized decoder state as
  query, key and value under the target mask, the second around the cross-attention block
  called with the normalized decoder state as query and the encoder output as key and as
  value under the source mask, the third around the feed-forward block. Each block is
  called once, as the layer holds it on entry; the one residual connection of the layer
  wraps all three and is not changed.
\<close>

theorem DecoderLayer_forward_composition:
  "fst (DecoderLayer_forward sa ca ff x enc_output src_mask tgt_mask self) =
     spec_decoder_layer (residual_connections self)
       (\<lambda>q k v m. fst (sa q k v m (self_attention_block self)))
       (\<lambda>q k v m. fst (ca q k v m (cross_attention_block self)))
       (\<lambda>y. fst (ff y (feed_forward_block self)))
       x enc_output src_mask tgt_mask
   \<and> residual_connections (snd (DecoderLayer_forward sa ca ff x enc_output src_mask tgt_mask self))
       = residual_connections self"
proof -
  let ?rc = "residual_connections self"
  let ?step1 = "ResidualConnection_forward ?rc x
       (\<lambda>y. zoom self_attention_block (\<lambda>a s. s\<lparr>self_attention_block := a\<rparr>) (sa y y y tgt_mask))"
  let ?step2 = "\<lambda>x. ResidualConnection_forward ?rc x
       (\<lambda>y. zoom cross_attention_block (\<lambda>a s. s\<lparr>cross_attention_block := a\<rparr>)
               (ca y enc_output enc_output src_mask))"
  let ?step3 = "\<lambda>x. ResidualConnection_forward ?rc x
       (\<lambda>y. zoom feed_forward_block (\<lambda>a s. s\<lparr>feed_forward_block := a\<rparr>) (ff y))"
  define s1 where "s1 = snd (?step1 self)"
  have f1: "fst (?step1 self)
              = spec_residual ?rc x (\<lambda>y. fst (sa y y y tgt_mask (self_attention_block self)))"
    by (rule residual_zoom_fst)
  have s1: "residual_connections s1 = ?rc"
           "cross_attention_block s1 = cross_attention_block self"
           "feed_forward_block s1 = feed_forward_block self"
    unfolding s1_def by (simp_all add: residual_zoom_snd split: sum.splits)
  have f2: "fst (?step2 y s1)
              = spec_residual ?rc y
                  (\<lambda>y. fst (ca y enc_output enc_output src_mask (cross_attention_block self)))"
    for y
    using residual_zoom_fst [of ?rc y cross_attention_block _ _ s1] by (simp add: s1)
  have s2: "residual_connections (snd (?step2 y s1)) = ?rc"
           "feed_forward_block (snd (?step2 y s1)) = feed_forward_block self" for y
    by (simp_all add: residual_zoom_snd s1 split: sum.splits)
  have f3: "fst (?step3 z (snd (?step2 y s1)))
              = spec_residual ?rc z (\<lambda>y. fst (ff y (feed_forward_block self)))" for y z
    using residual_zoom_fst [of ?rc z feed_forward_block _ _ "snd (?step2 y s1)"]
    by (simp add: s2)
  have s3: "residual_connections (snd (?step3 z (snd (?step2 y s1)))) = ?rc" for y z
    by (simp add: residual_zoom_snd s1 split: sum.splits)
  have unfold: "DecoderLayer_forward sa ca ff x enc_output src_mask tgt_mask self
      = (case fst (?step1 self) of
           Inl e \<Rightarrow> (Inl e, s1)
         | Inr y \<Rightarrow>
             (case fst (?step2 y s1) of
                Inl e \<Rightarrow> (Inl e, snd (?step2 y s1))
              | Inr z \<Rightarrow> ?step3 z (snd (?step2 y s1))))"
    unfolding DecoderLayer_forward_def s1_def
    by (simp add: pbind_simps pbind_residual_split s1 [unfolded s1_def] s2 [unfolded s1_def]
          split: sum.splits)
  show ?thesis
    unfolding unfold spec_decoder_layer_def
    by (simp add: f1 f2 f3 s1 s2 s3 rbind_def split: sum.splits)
qed

theorem DecoderLayer_forward_composition_witness:
  "fst (DecoderLayer_forward (\<lambda>q k v m. preturn q) (\<lambda>q k v m. preturn v) preturn
          \<lparr>b3 = 1, s3 = 1, d3 = 2, data3 = [0, 0]\<rparr>
          \<lparr>b3 = 1, s3 = 1, d3 = 2, data3 = [1, 1]\<rparr> None None
          \<lparr>self_attention_block = (), cross_attention_block = (), feed_forward_block = (),
           residual_connections =
             \<lparr>rc_d_model = 2,
              rc_norm = \<lparr>ln_d_model = 2, eps = 1 / 10 ^ 6, alpha = [1, 1], beta = [0, 0]\<rparr>,
              rc_dropout = \<lparr>prob = 1 / 10, training = False, keep = (\<lambda>_. True)\<rparr>\<rparr>\<rparr>)
     = Inr \<lparr>b3 = 1, s3 = 1, d3 = 2, data3 = [1, 1]\<rparr>"
proof -
  let ?n = "\<lparr>ln_d_model = 2, eps = 1 / 10 ^ 6, alpha = [1, 1], beta = [0, 0]\<rparr>"
  have z: "LayerNormalization_forward ?n \<lparr>b3 = 1, s3 = 1, d3 = 2, data3 = [0, 0]\<rparr>
             = Inr \<lparr>b3 = 1, s3 = 1, d3 = 2, data3 = [0, 0]\<rparr>"
    by (simp add: LayerNormalization_forward_tab tab3_def upt_0_2 lessThan_2 row_mean_def
          row_std_def at3_def normalize_entry_def)
  have u: "LayerNormalization_forward ?n \<lparr>b3 = 1, s3 = 1, d3 = 2, data3 = [1, 1]\<rparr>
             = Inr \<lparr>b3 = 1, s3 = 1, d3 = 2, data3 = [0, 0]\<rparr>"
    by (simp add: LayerNormalization_forward_tab tab3_def upt_0_2 lessThan_2 row_mean_def
          row_std_def at3_def normalize_entry_def)
  have a: "bop3 (+) \<lparr>b3 = 1, s3 = 1, d3 = 2, data3 = [0, 0]\<rparr>
             \<lparr>b3 = 1, s3 = 1, d3 = 2, data3 = [0, 0]\<rparr>
           = Inr \<lparr>b3 = 1, s3 = 1, d3 = 2, data3 = [0, 0]\<rparr>"
    by (simp add: bop3_same tab3_def upt_0_2 at3_def)
  have b: "bop3 (+) \<lparr>b3 = 1, s3 = 1, d3 = 2, data3 = [0, 0]\<rparr>
             \<lparr>b3 = 1, s3 = 1, d3 = 2, data3 = [1, 1]\<rparr>
           = Inr \<lparr>b3 = 1, s3 = 1, d3 = 2, data3 = [1, 1]\<rparr>"
    by (simp add: bop3_same tab3_def upt_0_2 at3_def)
  have c: "bop3 (+) \<lparr>b3 = 1, s3 = 1, d3 = 2, data3 = [1, 1]\<rparr>
             \<lparr>b3 = 1, s3 = 1, d3 = 2, data3 = [0, 0]\<rparr>
           = Inr \<lparr>b3 = 1, s3 = 1, d3 = 2, data3 = [1, 1]\<rparr>"
    by (simp add: bop3_same tab3_def upt_0_2 at3_def)
  show ?thesis
    by (simp only: DecoderLayer_forward_composition spec_decoder_layer_def spec_residual_def
          preturn_def Dropout_forward3_def z u a b c rbind_simps fst_conv
          decoderlayer.simps residual.simps dropout.simps simp_thms if_True if_False)
qed

section \<open>The positional table\<close>

lemma at3_unsqueeze0 [simp]: "at3 (unsqueeze0 t) 0 i j = at2 t i j"
  by (simp add: at3_def unsqueeze0_def at2_def)

lemma shape_unsqueeze0 [simp]:
  "b3 (unsqueeze0 t) = 1" "s3 (unsqueeze0 t) = n2 t" "d3 (unsqueeze0 t) = d2 t"
  by (simp_all add: unsqueeze0_def)

lemma length_arange_step2 [simp]: "length (arange_step2 D) = (D + 1) div 2"
  by (simp add: arange_step2_def)

lemma nth_arange_step2 [simp]: "k < (D + 1) div 2 \<Longrightarrow> arange_step2 D ! k = real (2 * k)"
  by (simp add: arange_step2_def)

text \<open>The angle of position \<open>i\<close> at frequency index \<open>k\<close>, as the constructor computes it.\<close>

lemma angle_table:
  assumes "i < S" and "k < (D + 1) div 2"
  shows "at2 (map2t f (column_times_row (arange_column S)
                 (map (\<lambda>a. exp (a * c)) (arange_step2 D)))) i k
           = f (real i * exp (real (2 * k) * c))"
  using assms by (simp add: map2t_def column_times_row_def arange_column_def)

lemma angle_shape:
  "n2 (map2t f (column_times_row (arange_column S) (map g (arange_step2 D)))) = S"
  "d2 (map2t f (column_times_row (arange_column S) (map g (arange_step2 D)))) = (D + 1) div 2"
  by (simp_all add: map2t_def column_times_row_def arange_column_def)

lemma set_columns_Inr:
  assumes "set_columns start rhs x = Inr y"
  shows "y = tab2 (n2 x) (d2 x)
               (\<lambda>i j. if start \<le> j \<and> even (j - start)
                      then at2 rhs (bidx (n2 rhs) i) (bidx (d2 rhs) ((j - start) div 2))
                      else at2 x i j)"
  using assms by (simp add: set_columns_def Let_def split: if_splits)

lemma PositionalEncoding_init_Inr:
  assumes "PositionalEncoding_init d_model seq_len dropout = Inr self"
  shows "0 < d_model" and "0 \<le> seq_len"
    and "b3 (pe self) = 1" and "s3 (pe self) = nat seq_len" and "d3 (pe self) = nat d_model"
    and "\<And>i k. i < nat seq_len \<Longrightarrow> 2 * k < nat d_model \<Longrightarrow>
           at3 (pe self) 0 i (2 * k)
             = sin (real i * exp (real (2 * k) * (- ln 10000 / real_of_int d_model)))"
    and "\<And>i k. i < nat seq_len \<Longrightarrow> 2 * k + 1 < nat d_model \<Longrightarrow>
           at3 (pe self) 0 i (2 * k + 1)
             = cos (real i * exp (real (2 * k) * (- ln 10000 / real_of_int d_model)))"
proof -
  let ?S = "nat seq_len" and ?D = "nat d_model"
  let ?c = "- ln 10000 / real_of_int d_model"
  let ?ang = "\<lambda>f. map2t f (column_times_row (arange_column ?S)
                 (map (\<lambda>a. exp (a * ?c)) (arange_step2 ?D)))"
  from assms show d: "0 < d_model" and s: "0 \<le> seq_len"
    by (auto simp: PositionalEncoding_init_def Let_def split: if_splits)
  from assms d s obtain pe1 pe2 where
    pe1: "set_columns 0 (?ang sin) (zeros2 ?S ?D) = Inr pe1" and
    pe2: "set_columns 1 (?ang cos) pe1 = Inr pe2" and
    self: "pe self = unsqueeze0 pe2"
    by (auto simp: PositionalEncoding_init_def Let_def rbind_def split: if_splits sum.splits)
  note e1 = set_columns_Inr [OF pe1] and e2 = set_columns_Inr [OF pe2]
  have sh1: "n2 pe1 = ?S" "d2 pe1 = ?D"
    by (simp_all add: e1 zeros2_def)
  have sh2: "n2 pe2 = ?S" "d2 pe2 = ?D"
    by (simp_all add: e2 sh1)
  show "b3 (pe self) = 1" "s3 (pe self) = ?S" "d3 (pe self) = ?D"
    by (simp_all add: self sh2)
  {
    fix i k assume i: "i < ?S" and k: "2 * k < ?D"
    have k': "k < (?D + 1) div 2" using k by linarith
    have odd: "\<not> (1 \<le> 2 * k \<and> even (2 * k - 1))"
      by (cases k) simp_all
    have "at2 pe2 i (2 * k) = at2 pe1 i (2 * k)"
      using i k odd by (subst e2) (simp add: sh1)
    also have "\<dots> = at2 (?ang sin) i k"
      using i k k' by (subst e1) (simp add: zeros2_def angle_shape)
    also have "\<dots> = sin (real i * exp (real (2 * k) * ?c))"
      using i k' by (rule angle_table)
    finally show "at3 (pe self) 0 i (2 * k) = sin (real i * exp (real (2 * k) * ?c))"
      by (simp add: self)
  next
    fix i k assume i: "i < ?S" and k: "2 * k + 1 < ?D"
    have k': "k < (?D + 1) div 2" using k by linarith
    have "at2 pe2 i (2 * k + 1) = at2 (?ang cos) i k"
      using i k k' by (subst e2) (simp add: sh1 angle_shape)
    also have "\<dots> = cos (real i * exp (real (2 * k) * ?c))"
      using i k' by (rule angle_table)
    finally show "at3 (pe self) 0 i (2 * k + 1) = cos (real i * exp (real (2 * k) * ?c))"
      by (simp add: self)
  }
qed

lemma PositionalEncoding_init_even:
  assumes "0 < d_model" and "even d_model" and "0 \<le> seq_len"
  shows "\<exists>self. PositionalEncoding_init d_model seq_len dropout = Inr self"
proof -
  have "even (nat d_model)"
    using assms(1,2) by (simp add: even_nat_iff)
  then have "(nat d_model + 1) div 2 = nat d_model div 2"
    by (elim evenE) simp
  then show ?thesis
    using assms
    by (simp add: PositionalEncoding_init_def Let_def set_columns_def angle_shape zeros2_def)
qed

lemma frequency_forms:
  fixes x a d :: real
  assumes "0 < d"
  shows "x * exp (a * (- ln 10000 / d)) = x / 10000 powr (a / d)"
    and "x * exp (a * (- ln 10000 / d)) = x * exp (- a * ln 10000 / d)"
proof -
  have arg: "a * (- ln 10000 / d) = - (a / d * ln 10000)"
    by simp
  have "10000 powr (a / d) = exp (a / d * ln 10000)"
    by (simp add: powr_def)
  moreover have "exp (a * (- ln 10000 / d)) = inverse (exp (a / d * ln 10000))"
    unfolding arg by (rule exp_minus)
  ultimately show "x * exp (a * (- ln 10000 / d)) = x / 10000 powr (a / d)"
    by (simp add: divide_inverse)
  show "x * exp (a * (- ln 10000 / d)) = x * exp (- a * ln 10000 / d)"
    by simp
qed

text \<open>
  Claim C5. In the table of a positional encoding that was constructed, for every
  position \<open>pos\<close> below \<open>seq_len\<close> and every even feature index \<open>2i\<close> below \<open>d_model\<close>, the
  entry at \<open>2i\<close> is \<open>sin(pos / 10000^(2i/d_model))\<close>, which is
  \<open>sin(pos * exp(-2i * ln(10000) / d_model))\<close>, and the entry at \<open>2i + 1\<close>, where the
  table has that column, is the cosine of the same angle. The table has shape
  (1, seq_len, d_model) and is not among the parameters of the module.
\<close>

theorem PositionalEncoding_table:
  assumes "PositionalEncoding_init d_model seq_len dropout = Inr self"
    and "pos < nat seq_len" and "2 * i < nat d_model"
  shows "at3 (pe self) 0 pos (2 * i)
           = sin (real pos / 10000 powr (real (2 * i) / real_of_int d_model))
       \<and> at3 (pe self) 0 pos (2 * i)
           = sin (real pos * exp (- real (2 * i) * ln 10000 / real_of_int d_model))
       \<and> (2 * i + 1 < nat d_model \<longrightarrow>
            at3 (pe self) 0 pos (2 * i + 1)
              = cos (real pos / 10000 powr (real (2 * i) / real_of_int d_model))
          \<and> at3 (pe self) 0 pos (2 * i + 1)
              = cos (real pos * exp (- real (2 * i) * ln 10000 / real_of_int d_model)))
       \<and> b3 (pe self) = 1 \<and> s3 (pe self) = nat seq_len \<and> d3 (pe self) = nat d_model
       \<and> PositionalEncoding_parameters self = []"
proof -
  note init = PositionalEncoding_init_Inr [OF assms(1)]
  have d: "0 < real_of_int d_model" using init(1) by simp
  note forms = frequency_forms [OF d]
  have s: "at3 (pe self) 0 pos (2 * i)
             = sin (real pos * exp (real (2 * i) * (- ln 10000 / real_of_int d_model)))"
    using init(6) assms(2,3) by blast
  have c: "at3 (pe self) 0 pos (2 * i + 1)
             = cos (real pos * exp (real (2 * i) * (- ln 10000 / real_of_int d_model)))"
    if "2 * i + 1 < nat d_model"
    using init(7) assms(2) that by blast
  show ?thesis
    using s c init(3,4,5) forms [of "real pos" "real (2 * i)"]
    by (simp add: PositionalEncoding_parameters_def)
qed

theorem PositionalEncoding_table_witness:
  "\<exists>self. PositionalEncoding_init 2 2 (1 / 10) = Inr self
      \<and> at3 (pe self) 0 1 0 = sin 1 \<and> at3 (pe self) 0 1 1 = cos 1"
proof -
  obtain self where self: "PositionalEncoding_init 2 2 (1 / 10) = Inr self"
    using PositionalEncoding_init_even [of 2 2 "1 / 10"] by auto
  show ?thesis
    using self PositionalEncoding_table [OF self, of 1 0] by auto
qed

section \<open>Forward passes and the parameters\<close>

text \<open>
  What a computation keeps: \<open>P\<close> is read off the state, and the state a computation
  leaves has the same \<open>P\<close> as the state it started in, whether it returned or raised.
\<close>

lemma pbind_keeps:
  assumes "\<And>s. P (snd (m s)) = P s" and "\<And>v s. P (snd (f v s)) = P s"
  shows "P (snd (pbind m f s)) = P s"
proof (cases "m s")
  case (Pair r s')
  then have "P s' = P s" using assms(1) [of s] by simp
  with Pair show ?thesis
    using assms(2) by (cases r) (simp_all add: pbind_def)
qed

lemma pure_keeps [simp]:
  "snd (plift r s) = s" "snd (preturn v s) = s" "snd (praise e s) = s" "snd (pget s) = s"
  by (simp_all add: plift_def preturn_def praise_def pget_def)

lemma zoom_keeps:
  assumes "\<And>a. Q (snd (m a)) = Q a" and "\<And>a. Q a = Q (get s) \<Longrightarrow> P (put a s) = P s"
  shows "P (snd (zoom get put m s)) = P s"
proof -
  obtain r a' where m: "m (get s) = (r, a')"
    by (cases "m (get s)")
  then have "Q a' = Q (get s)"
    using assms(1) [of "get s"] by simp
  then have "P (put a' s) = P s"
    by (rule assms(2))
  with m show ?thesis
    by (simp add: zoom_def)
qed

lemma residual_keeps:
  assumes "\<And>y s. P (snd (sub y s)) = P s"
  shows "P (snd (ResidualConnection_forward rc x sub s)) = P s"
  unfolding ResidualConnection_forward_def
  by (intro pbind_keeps [where P = P]) (simp_all add: assms)

lemma run_layers_keeps:
  assumes "\<And>i x s. P (snd (step i x s)) = P s"
  shows "P (snd (run_layers is step x s)) = P s"
proof (induction "is" arbitrary: x s)
  case Nil
  show ?case by simp
next
  case (Cons i "is")
  show ?case
    by (simp only: run_layers.simps) (rule pbind_keeps [where P = P], rule assms, rule Cons.IH)
qed

lemma map_update_same:
  assumes "f a = f (xs ! i)"
  shows "map f (xs[i := a]) = map f xs"
proof (cases "i < length xs")
  case True
  then show ?thesis using assms by (simp add: map_update list_update_same_conv)
next
  case False
  then show ?thesis by (simp add: list_update_beyond not_less)
qed

subsection \<open>Multi-head attention writes its scores and nothing else\<close>

lemma MultiHeadAttention_forward_frame:
  "(snd (MultiHeadAttention_forward q k v msk self))\<lparr>attention_scores := None\<rparr>
     = self\<lparr>attention_scores := None\<rparr>"
  by (simp add: MultiHeadAttention_forward_def pbind_def pget_def plift_def pput_def
      split: sum.splits prod.splits)

lemma MultiHeadAttention_parameters_scores:
  "MultiHeadAttention_parameters (m\<lparr>attention_scores := a\<rparr>) = MultiHeadAttention_parameters m"
  by (simp add: MultiHeadAttention_parameters_def)

lemma MultiHeadAttention_forward_keeps:
  "MultiHeadAttention_parameters (snd (MultiHeadAttention_forward q k v msk self))
     = MultiHeadAttention_parameters self"
  using arg_cong [OF MultiHeadAttention_forward_frame [of q k v msk self],
                  of MultiHeadAttention_parameters]
  by (simp only: MultiHeadAttention_parameters_scores)

lemma FeedForward_call_keeps: "snd (FeedForward_call x self) = self"
  by (simp add: FeedForward_call_def pbind_def pget_def plift_def)

subsection \<open>Layers and stacks\<close>

lemma EncoderLayer_forward_keeps:
  "EncoderLayer_parameters (snd (EncoderLayer_forward x msk self)) = EncoderLayer_parameters self"
  unfolding EncoderLayer_forward_def
proof (intro pbind_keeps [where P = EncoderLayer_parameters] residual_keeps)
  fix y and s :: encoderlayer
  show "EncoderLayer_parameters
          (snd (zoom multi_head_attention (\<lambda>a s. s\<lparr>multi_head_attention := a\<rparr>)
                  (MultiHeadAttention_forward y y y msk) s))
        = EncoderLayer_parameters s"
    by (rule zoom_keeps [where Q = MultiHeadAttention_parameters])
       (simp_all add: MultiHeadAttention_forward_keeps EncoderLayer_parameters_def)
qed simp_all

lemma dlayer_forward_keeps:
  "dlayer_parameters (snd (dlayer_forward x enc_output src_mask tgt_mask self))
     = dlayer_parameters self"
  unfolding dlayer_forward_def DecoderLayer_forward_def
proof (intro pbind_keeps [where P = dlayer_parameters] residual_keeps)
  fix y and s :: dlayer
  show "dlayer_parameters
          (snd (zoom self_attention_block (\<lambda>a s. s\<lparr>self_attention_block := a\<rparr>)
                  (MultiHeadAttention_forward y y y tgt_mask) s))
        = dlayer_parameters s"
    by (rule zoom_keeps [where Q = MultiHeadAttention_parameters])
       (simp_all add: MultiHeadAttention_forward_keeps dlayer_parameters_def)
  show "dlayer_parameters
          (snd (zoom cross_attention_block (\<lambda>a s. s\<lparr>cross_attention_block := a\<rparr>)
                  (MultiHeadAttention_forward y enc_output enc_output src_mask) s))
        = dlayer_parameters s"
    by (rule zoom_keeps [where Q = MultiHeadAttention_parameters])
       (simp_all add: MultiHeadAttention_forward_keeps dlayer_parameters_def)
  show "dlayer_parameters
          (snd (zoom feed_forward_block (\<lambda>a s. s\<lparr>feed_forward_block := a\<rparr>)
                  (FeedForward_call y) s))
        = dlayer_parameters s"
    by (rule zoom_keeps [where Q = "\<lambda>f. f"])
       (simp_all add: FeedForward_call_keeps)
qed simp_all

lemma Decoder_forward_keeps:
  "Decoder_parameters (snd (Decoder_forward dlayer_forward x enc_output src_mask tgt_mask self))
     = Decoder_parameters self"
  unfolding Decoder_forward_sequential
proof (intro pbind_keeps [where P = Decoder_parameters] run_layers_keeps)
  fix i y and s :: "dlayer decoder"
  show "Decoder_parameters
          (snd (zoom (\<lambda>s. dec_layers s ! i) (\<lambda>l s. s\<lparr>dec_layers := (dec_layers s)[i := l]\<rparr>)
                  (dlayer_forward y enc_output src_mask tgt_mask) s))
        = Decoder_parameters s"
    by (rule zoom_keeps [where Q = dlayer_parameters])
       (simp_all add: dlayer_forward_keeps Decoder_parameters_def map_update_same)
qed simp_all

subsection \<open>The entry points\<close>

lemma encode_keeps:
  "Transformer_parameters (snd (encode src src_mask self)) = Transformer_parameters self"
  unfolding encode_def
proof (intro pbind_keeps [where P = Transformer_parameters])
  fix y and s :: transformer
  show "Transformer_parameters
          (snd (zoom tr_encoder (\<lambda>e s. s\<lparr>tr_encoder := e\<rparr>) (Encoder_forward y src_mask) s))
        = Transformer_parameters s"
    by (rule zoom_keeps [where Q = Encoder_parameters])
       (simp_all add: Encoder_forward_no_attribute Transformer_parameters_def)
qed simp_all

lemma decode_keeps:
  "Transformer_parameters (snd (decode encoder_output src_mask tgt tgt_mask self))
     = Transformer_parameters self"
  unfolding decode_def
proof (intro pbind_keeps [where P = Transformer_parameters])
  fix y and s :: transformer
  show "Transformer_parameters
          (snd (zoom tr_decoder (\<lambda>d s. s\<lparr>tr_decoder := d\<rparr>)
                  (Decoder_forward dlayer_forward y encoder_output src_mask tgt_mask) s))
        = Transformer_parameters s"
    by (rule zoom_keeps [where Q = Decoder_parameters])
       (simp_all add: Decoder_forward_keeps Transformer_parameters_def)
qed simp_all

lemma project_keeps: "snd (project x self) = self"
  by (simp add: project_def pbind_def pget_def plift_def)

text \<open>
  Claim C10. A forward pass leaves every parameter as it was, whether it returns or
  raises: the list of parameter tensors of the transformer is the same after \<open>encode\<close>,
  after \<open>decode\<close> and after \<open>project\<close>, and the same holds for the parameters of a
  multi-head attention, of an encoder layer, of a decoder layer and of the encoder and
  decoder stacks after their own forward passes. The one assignment a forward pass
  makes is to the attribute \<^verbatim>\<open>attention_scores\<close> of an attention module, which is not a
  parameter. Layer normalization, the linear maps, the feed-forward block, the
  embeddings, the positional encoding and the projection assign nothing, and their
  forward passes are functions of the module and the input.
\<close>

theorem forward_keeps_parameters:
  "Transformer_parameters (snd (encode src src_mask self)) = Transformer_parameters self
   \<and> Transformer_parameters (snd (decode encoder_output src_mask tgt tgt_mask self))
       = Transformer_parameters self
   \<and> Transformer_parameters (snd (project x self)) = Transformer_parameters self
   \<and> MultiHeadAttention_parameters (snd (MultiHeadAttention_forward q k v msk m))
       = MultiHeadAttention_parameters m
   \<and> (snd (MultiHeadAttention_forward q k v msk m))\<lparr>attention_scores := None\<rparr>
       = m\<lparr>attention_scores := None\<rparr>
   \<and> EncoderLayer_parameters (snd (EncoderLayer_forward y msk el)) = EncoderLayer_parameters el
   \<and> dlayer_parameters (snd (dlayer_forward y encoder_output src_mask tgt_mask dl))
       = dlayer_parameters dl
   \<and> Encoder_parameters (snd (Encoder_forward y msk enc)) = Encoder_parameters enc
   \<and> Decoder_parameters (snd (Decoder_forward dlayer_forward y encoder_output src_mask tgt_mask dec))
       = Decoder_parameters dec"
  by (intro conjI encode_keeps decode_keeps MultiHeadAttention_forward_keeps
        MultiHeadAttention_forward_frame EncoderLayer_forward_keeps dlayer_forward_keeps
        Decoder_forward_keeps)
     (simp_all add: project_keeps Encoder_forward_no_attribute)

theorem forward_keeps_parameters_witness:
  "MultiHeadAttention_parameters
     (snd (MultiHeadAttention_forward
             \<lparr>b3 = 1, s3 = 1, d3 = 1, data3 = [2]\<rparr>
             \<lparr>b3 = 1, s3 = 1, d3 = 1, data3 = [2]\<rparr>
             \<lparr>b3 = 1, s3 = 1, d3 = 1, data3 = [2]\<rparr> None
             \<lparr>mha_d_model = 1, mha_h = 1, mha_d_k = 1,
              w_q = \<lparr>in_features = 1, out_features = 1, weight = [[1]], bias = [0]\<rparr>,
              w_k = \<lparr>in_features = 1, out_features = 1, weight = [[1]], bias = [0]\<rparr>,
              w_v = \<lparr>in_features = 1, out_features = 1, weight = [[3]], bias = [0]\<rparr>,
              w_o = \<lparr>in_features = 1, out_features = 1, weight = [[1]], bias = [5]\<rparr>,
              mha_dropout = \<lparr>prob = 1 / 10, training = False, keep = (\<lambda>_. True)\<rparr>,
              attention_scores = None\<rparr>))
   = [[1], [0], [1], [0], [3], [0], [1], [5]]"
proof -
  note keeps = forward_keeps_parameters
                 [THEN conjunct2, THEN conjunct2, THEN conjunct2, THEN conjunct1]
  show ?thesis
    by (simp only: keeps) (simp add: MultiHeadAttention_parameters_def Linear_parameters_def)
qed

section \<open>Multi-head attention\<close>

subsection \<open>Operations on tabulated tensors\<close>

lemma bat4_tab4 [simp]:
  "a < A \<Longrightarrow> b < B \<Longrightarrow> c < C \<Longrightarrow> d < D \<Longrightarrow> bat4 (tab4 A B C D f) a b c d = f a b c d"
  by (simp add: bat4_def)

lemma transpose12_tab4:
  "transpose12 (tab4 A B C D f) = tab4 A C B D (\<lambda>a b c d. f a c b d)"
  by (auto simp: transpose12_def intro!: tab4_cong)

lemma transpose23_tab4:
  "transpose23 (tab4 A B C D f) = tab4 A B D C (\<lambda>a b c d. f a b d c)"
  by (auto simp: transpose23_def intro!: tab4_cong)

lemma map4_tab4: "map4 g (tab4 A B C D f) = tab4 A B C D (\<lambda>a b c d. g (f a b c d))"
  by (auto simp: map4_def intro!: tab4_cong)

lemma matmul4_tab4:
  "matmul4 (tab4 A B N M f) (tab4 A B M P g)
     = Inr (tab4 A B N P (\<lambda>a b i j. \<Sum>m<M. f a b i m * g a b m j))"
  by (auto simp: matmul4_def intro!: tab4_cong sum.cong)

lemma softmax_tab4: "softmax (tab4 A B C D f) = tab4 A B C D (spec_softmax D f)"
  by (auto simp: softmax_def spec_softmax_def intro!: tab4_cong sum.cong arg_cong2 [where f = "(/)"])

lemma Dropout_forward4_tab4:
  "Dropout_forward4 dr (tab4 A B C D f) = tab4 A B C D (spec_dropout dr f)"
  by (auto simp: Dropout_forward4_def spec_dropout_def [abs_def] intro!: tab4_cong)

lemma bdim_fits: "m = n \<or> m = 1 \<Longrightarrow> bdim n m = Inr n"
  by (auto simp: bdim_def)

lemma masked_fill_tab4:
  assumes "mask_fits (Some m) A B C D"
  shows "masked_fill (tab4 A B C D f) m v
           = Inr (tab4 A B C D (\<lambda>a b c d. if bat4 m a b c d = 0 then v else f a b c d))"
  using assms
  by (auto simp: masked_fill_def mask_fits_def bdim_fits intro!: tab4_cong)

lemma spec_masked_None: "spec_masked None f = f"
  by (intro ext) (simp add: spec_masked_def)

lemma masked_fill_spec:
  assumes "mask_fits (Some m) A B C D" and "v = - (10 ^ 9)"
  shows "masked_fill (tab4 A B C D f) m v = Inr (tab4 A B C D (spec_masked (Some m) f))"
  unfolding masked_fill_tab4 [OF assms(1)] assms(2)
  by (simp add: spec_masked_def [abs_def])

lemma attention_tab4:
  assumes "mask_fits msk A B N P"
  shows "attention (tab4 A B N M fq) (tab4 A B P M fk) (tab4 A B P M fv) msk (Some dr)
           = Inr (tab4 A B N M
                    (\<lambda>a b i c.
                       \<Sum>t<P. spec_dropout dr
                                (spec_softmax P
                                   (spec_masked msk
                                      (\<lambda>a b i t. (\<Sum>c<M. fq a b i c * fk a b t c) / sqrt (real M))))
                                a b i t
                              * fv a b t c),
                  tab4 A B N P
                    (spec_dropout dr
                       (spec_softmax P
                          (spec_masked msk
                             (\<lambda>a b i t. (\<Sum>c<M. fq a b i c * fk a b t c) / sqrt (real M))))))"
proof (cases msk)
  case None
  then show ?thesis
    by (simp add: attention_def Let_def transpose23_tab4 matmul4_tab4 map4_tab4 softmax_tab4
          Dropout_forward4_tab4 spec_masked_None)
next
  case (Some m)
  then have fits: "mask_fits (Some m) A B N P"
    using assms by simp
  show ?thesis
    by (simp add: Some attention_def Let_def transpose23_tab4 matmul4_tab4 map4_tab4
          masked_fill_spec [OF fits] softmax_tab4 Dropout_forward4_tab4)
qed

subsection \<open>Splitting into heads and merging them\<close>

lemma view4_heads:
  assumes "0 < h" and "0 < dk" and "d3 x = nat h * nat dk" and "0 < b3 x"
  shows "view4 x (b3 x) h dk
           = Inr \<lparr>k0 = b3 x, k1 = s3 x, k2 = nat h, k3 = nat dk, data4 = data3 x\<rparr>"
proof -
  let ?known = "b3 x * nat h * nat dk"
  have pos: "0 < ?known" using assms by simp
  have n: "b3 x * s3 x * d3 x = s3 x * ?known"
    by (simp add: assms(3) mult_ac)
  show ?thesis
    using assms(1,2) pos by (simp add: view4_def Let_def n)
qed

lemma split_heads_tab4:
  assumes "0 < mha_h self" and "0 < mha_d_k self"
    and "d3 x = nat (mha_h self) * nat (mha_d_k self)" and "0 < b3 x"
  shows "split_heads self x
           = Inr (tab4 (b3 x) (nat (mha_h self)) (s3 x) (nat (mha_d_k self))
                    (head_entry (nat (mha_d_k self)) x))"
proof -
  let ?v = "\<lparr>k0 = b3 x, k1 = s3 x, k2 = nat (mha_h self), k3 = nat (mha_d_k self),
             data4 = data3 x\<rparr>"
  have "at4 ?v a c b d = head_entry (nat (mha_d_k self)) x a b c d" for a b c d
    by (simp add: at4_def head_entry_def at3_def assms(3) algebra_simps)
  then have "transpose12 ?v
               = tab4 (b3 x) (nat (mha_h self)) (s3 x) (nat (mha_d_k self))
                   (head_entry (nat (mha_d_k self)) x)"
    by (simp add: transpose12_def)
  then show ?thesis
    by (simp add: split_heads_def view4_heads [OF assms])
qed

lemma Linear_forward_cong:
  assumes "b3 y = b3 x" and "s3 y = s3 x" and "d3 y = d3 x"
    and "\<And>b s i. b < b3 x \<Longrightarrow> s < s3 x \<Longrightarrow> i < d3 x \<Longrightarrow> at3 y b s i = at3 x b s i"
  shows "Linear_forward l y = Linear_forward l x"
  using assms by (auto simp: Linear_forward_def intro!: tab3_cong sum.cong)

lemma Linear_forward_shape:
  assumes "d3 x = in_features l"
  shows "\<exists>y. Linear_forward l x = Inr y \<and> b3 y = b3 x \<and> s3 y = s3 x \<and> d3 y = out_features l"
  using assms by (simp add: Linear_forward_def)

lemma merge_index:
  fixes e H Dk r :: nat
  assumes "e < H * Dk"
  shows "(r * (H * Dk) + e) = ((r * H + e div Dk) * Dk + e mod Dk)" and "e div Dk < H"
proof -
  have "0 < Dk" using assms by (cases Dk) auto
  show "e div Dk < H"
    using assms by (simp add: less_mult_imp_div_less mult.commute)
  have "(r * H + e div Dk) * Dk + e mod Dk = r * (H * Dk) + (e div Dk * Dk + e mod Dk)"
    by (simp add: algebra_simps)
  then show "(r * (H * Dk) + e) = ((r * H + e div Dk) * Dk + e mod Dk)"
    by simp
qed

lemma view3_merge:
  assumes "0 < A" and "0 < H" and "0 < Dk" and "0 \<le> d" and "nat d = H * Dk"
  shows "\<exists>y. view3 (tab4 A S H Dk f) A d = Inr y
             \<and> b3 y = A \<and> s3 y = S \<and> d3 y = H * Dk
             \<and> (\<forall>a<A. \<forall>s<S. \<forall>e<H * Dk. at3 y a s e = f a s (e div Dk) (e mod Dk))"
proof -
  let ?T = "tab4 A S H Dk f"
  let ?y = "\<lparr>b3 = A, s3 = S, d3 = H * Dk, data3 = data4 ?T\<rparr>"
  have known: "0 < A * (H * Dk)" using assms by simp
  have n: "A * S * H * Dk = S * (A * (H * Dk))" by (simp add: mult_ac)
  have v: "view3 ?T A d = Inr ?y"
    using assms(4,5) known by (simp add: view3_def Let_def n)
  have "at3 ?y a s e = f a s (e div Dk) (e mod Dk)" if "a < A" "s < S" "e < H * Dk" for a s e
  proof -
    have "at3 ?y a s e = at4 ?T a s (e div Dk) (e mod Dk)"
      using merge_index(1) [OF that(3), of "a * S + s"] by (simp add: at3_def at4_def)
    also have "\<dots> = f a s (e div Dk) (e mod Dk)"
      using that merge_index(2) [OF that(3)] assms(3) by simp
    finally show ?thesis .
  qed
  with v show ?thesis by simp
qed

subsection \<open>The forward pass\<close>

lemma MultiHeadAttention_forward_run:
  assumes wf: "mha_wf self"
    and q: "0 < b3 q" "d3 q = nat (mha_d_model self)"
    and k: "b3 k = b3 q" "d3 k = nat (mha_d_model self)"
    and v: "b3 v = b3 q" "s3 v = s3 k" "d3 v = nat (mha_d_model self)"
    and m: "mask_fits msk (b3 q) (nat (mha_h self)) (s3 q) (s3 k)"
  shows "\<exists>Q K V out.
           Linear_forward (w_q self) q = Inr Q \<and> Linear_forward (w_k self) k = Inr K
         \<and> Linear_forward (w_v self) v = Inr V
         \<and> Linear_forward (w_o self)
              (tab3 (b3 q) (s3 q) (nat (mha_d_model self))
                 (spec_context (nat (mha_d_k self)) (s3 k) (spec_weights self Q K msk) V)) = Inr out
         \<and> b3 out = b3 q \<and> s3 out = s3 q \<and> d3 out = d3 q
         \<and> MultiHeadAttention_forward q k v msk self
             = (Inr out,
                self\<lparr>attention_scores :=
                       Some (tab4 (b3 q) (nat (mha_h self)) (s3 q) (s3 k)
                               (spec_weights self Q K msk))\<rparr>)"
proof -
  let ?B = "b3 q" and ?Sq = "s3 q" and ?Sk = "s3 k"
  let ?H = "nat (mha_h self)" and ?Dk = "nat (mha_d_k self)" and ?Dm = "nat (mha_d_model self)"
  from wf have h: "0 < mha_h self" and dk: "0 < mha_d_k self"
    and dm: "mha_d_model self = mha_h self * mha_d_k self"
    and lq: "in_features (w_q self) = ?Dm" "out_features (w_q self) = ?Dm"
    and lk: "in_features (w_k self) = ?Dm" "out_features (w_k self) = ?Dm"
    and lv: "in_features (w_v self) = ?Dm" "out_features (w_v self) = ?Dm"
    and lo: "in_features (w_o self) = ?Dm" "out_features (w_o self) = ?Dm"
    by (simp_all add: mha_wf_def)
  have Dm: "?Dm = ?H * ?Dk"
    using h dk by (simp add: dm nat_mult_distrib)
  have Hpos: "0 < ?H" and Dkpos: "0 < ?Dk" using h dk by simp_all
  obtain Q where Q: "Linear_forward (w_q self) q = Inr Q"
    and Qs: "b3 Q = ?B" "s3 Q = ?Sq" "d3 Q = ?Dm"
    using Linear_forward_shape [of q "w_q self"] q lq by auto
  obtain K where K: "Linear_forward (w_k self) k = Inr K"
    and Ks: "b3 K = ?B" "s3 K = ?Sk" "d3 K = ?Dm"
    using Linear_forward_shape [of k "w_k self"] k lk by auto
  obtain V where V: "Linear_forward (w_v self) v = Inr V"
    and Vs: "b3 V = ?B" "s3 V = ?Sk" "d3 V = ?Dm"
    using Linear_forward_shape [of v "w_v self"] v lv by auto
  have hq: "split_heads self Q = Inr (tab4 ?B ?H ?Sq ?Dk (head_entry ?Dk Q))"
    using split_heads_tab4 [OF h dk, of Q] q(1) by (simp add: Qs Dm)
  have hk: "split_heads self K = Inr (tab4 ?B ?H ?Sk ?Dk (head_entry ?Dk K))"
    using split_heads_tab4 [OF h dk, of K] q(1) by (simp add: Ks Dm)
  have hv: "split_heads self V = Inr (tab4 ?B ?H ?Sk ?Dk (head_entry ?Dk V))"
    using split_heads_tab4 [OF h dk, of V] q(1) by (simp add: Vs Dm)
  let ?W = "spec_weights self Q K msk"
  let ?fx = "\<lambda>a b i c. \<Sum>t<?Sk. ?W a b i t * head_entry ?Dk V a b t c"
  have att: "attention (tab4 ?B ?H ?Sq ?Dk (head_entry ?Dk Q))
               (tab4 ?B ?H ?Sk ?Dk (head_entry ?Dk K)) (tab4 ?B ?H ?Sk ?Dk (head_entry ?Dk V))
               msk (Some (mha_dropout self))
             = Inr (tab4 ?B ?H ?Sq ?Dk ?fx, tab4 ?B ?H ?Sq ?Sk ?W)"
    unfolding attention_tab4 [OF m]
    by (simp add: spec_weights_def spec_scores_def [abs_def] Ks)
  obtain y where y: "view3 (tab4 ?B ?Sq ?H ?Dk (\<lambda>a b c d. ?fx a c b d)) ?B (mha_d_model self) = Inr y"
    and ys: "b3 y = ?B" "s3 y = ?Sq" "d3 y = ?H * ?Dk"
    and yat: "\<And>a s e. a < ?B \<Longrightarrow> s < ?Sq \<Longrightarrow> e < ?H * ?Dk \<Longrightarrow>
                at3 y a s e = ?fx a (e div ?Dk) s (e mod ?Dk)"
    using view3_merge [OF q(1) Hpos Dkpos _ Dm, of ?Sq "\<lambda>a b c d. ?fx a c b d"] h dk dm
    by auto
  let ?ctx = "tab3 ?B ?Sq ?Dm (spec_context ?Dk ?Sk ?W V)"
  have ctx: "Linear_forward (w_o self) y = Linear_forward (w_o self) ?ctx"
  proof (rule Linear_forward_cong)
    fix b s i assume b: "b < b3 ?ctx" and s: "s < s3 ?ctx" and i: "i < d3 ?ctx"
    then have "at3 y b s i = ?fx b (i div ?Dk) s (i mod ?Dk)"
      using yat [of b s i] by (simp add: Dm)
    also have "\<dots> = spec_context ?Dk ?Sk ?W V b s i"
      by (simp add: spec_context_def head_entry_def)
    finally show "at3 y b s i = at3 ?ctx b s i"
      using b s i by simp
  qed (simp_all add: ys Dm)
  obtain out where out: "Linear_forward (w_o self) ?ctx = Inr out"
    and outs: "b3 out = ?B" "s3 out = ?Sq" "d3 out = ?Dm"
    using Linear_forward_shape [of ?ctx "w_o self"] lo by auto
  have run: "MultiHeadAttention_forward q k v msk self
      = (Inr out, self\<lparr>attention_scores := Some (tab4 ?B ?H ?Sq ?Sk ?W)\<rparr>)"
    by (simp add: MultiHeadAttention_forward_def pbind_simps Q K V hq hk hv att
          transpose12_tab4 y ctx out plift_def)
  show ?thesis
    using Q K V out outs run q(2) by auto
qed

lemma MultiHeadAttention_init_wf:
  assumes "MultiHeadAttention_init d_model h dropout g = (Inr m, g')"
    and "0 < d_model" and "0 < h"
  shows "mha_wf m"
proof -
  have d: "0 \<le> d_model" using assms(2) by simp
  from assms(1,3) have dvd: "d_model mod h = 0"
    by (auto simp: MultiHeadAttention_init_def praise_def split: if_splits)
  then have eq: "h * (d_model div h) = d_model"
    by (simp add: mod_0_imp_dvd)
  have pos: "0 < d_model div h"
    using assms(2,3) eq by (metis mult_pos_pos not_less zero_less_mult_pos)
  obtain l1 g1 where l1: "Linear_init d_model d_model g = (Inr l1, g1)" "linear_wf l1"
      "in_features l1 = nat d_model" "out_features l1 = nat d_model"
    using Linear_init_ok [OF d d, of g] by blast
  obtain l2 g2 where l2: "Linear_init d_model d_model g1 = (Inr l2, g2)" "linear_wf l2"
      "in_features l2 = nat d_model" "out_features l2 = nat d_model"
    using Linear_init_ok [OF d d, of g1] by blast
  obtain l3 g3 where l3: "Linear_init d_model d_model g2 = (Inr l3, g3)" "linear_wf l3"
      "in_features l3 = nat d_model" "out_features l3 = nat d_model"
    using Linear_init_ok [OF d d, of g2] by blast
  obtain l4 g4 where l4: "Linear_init d_model d_model g3 = (Inr l4, g4)" "linear_wf l4"
      "in_features l4 = nat d_model" "out_features l4 = nat d_model"
    using Linear_init_ok [OF d d, of g3] by blast
  from assms(1,3) dvd have
    "m = \<lparr>mha_d_model = d_model, mha_h = h, mha_d_k = d_model div h,
          w_q = l1, w_k = l2, w_v = l3, w_o = l4,
          mha_dropout = \<lparr>prob = dropout, training = True, keep = bernoulli g4\<rparr>,
          attention_scores = None\<rparr>"
    by (auto simp: MultiHeadAttention_init_def pbind_def l1(1) l2(1) l3(1) l4(1)
          Dropout_init_def pget_def preturn_def praise_def split: if_splits)
  then show ?thesis
    using l1 l2 l3 l4 eq pos assms(3) by (simp add: mha_wf_def)
qed

text \<open>
  Claim C1. Let the module be as its constructor leaves it, let the query be of shape
  (B, Sq, d_model) with a batch that is not empty, the key and the value of shape
  (B, Sk, d_model), and let the mask, if there is one, fit the scores of shape
  (B, h, Sq, Sk). Then the forward pass returns what the specification describes:
  the three inputs go through their own linear maps; head \<open>j\<close> of a token is the slice
  \<open>j * d_k ..\<close> of its projected features; the raw score is the dot product of the query
  and key slices over \<open>sqrt(d_k)\<close>; a score whose mask entry is zero is replaced by
  \<open>-1e9\<close> before the softmax, which runs over the keys; dropout follows; feature \<open>e\<close> of
  the context of a query is the sum over the keys of the weight in head \<open>e div d_k\<close> times
  feature \<open>e\<close> of the projected value, which puts the heads side by side again, token by
  token; and the output projection is applied to the context. The output has the shape of
  the query. The weights are what the pass stores in \<^verbatim>\<open>attention_scores\<close>, and in evaluation
  mode they are the softmax itself.
\<close>

theorem MultiHeadAttention_forward_attend:
  assumes "mha_wf self"
    and "0 < b3 q" and "d3 q = nat (mha_d_model self)"
    and "b3 k = b3 q" and "d3 k = nat (mha_d_model self)"
    and "b3 v = b3 q" and "s3 v = s3 k" and "d3 v = nat (mha_d_model self)"
    and "mask_fits msk (b3 q) (nat (mha_h self)) (s3 q) (s3 k)"
  shows "fst (MultiHeadAttention_forward q k v msk self) = spec_attend self q k v msk
       \<and> (\<exists>out. fst (MultiHeadAttention_forward q k v msk self) = Inr out
              \<and> b3 out = b3 q \<and> s3 out = s3 q \<and> d3 out = d3 q)
       \<and> (\<exists>Q K. Linear_forward (w_q self) q = Inr Q \<and> Linear_forward (w_k self) k = Inr K
              \<and> attention_scores (snd (MultiHeadAttention_forward q k v msk self))
                  = Some (tab4 (b3 q) (nat (mha_h self)) (s3 q) (s3 k)
                            (spec_weights self Q K msk)))
       \<and> (\<forall>Q K. \<not> training (mha_dropout self) \<longrightarrow>
              spec_weights self Q K msk
                = spec_softmax (s3 K) (spec_masked msk (spec_scores (nat (mha_d_k self)) Q K)))"
proof -
  obtain Q K V out where
    Q: "Linear_forward (w_q self) q = Inr Q" and K: "Linear_forward (w_k self) k = Inr K" and
    V: "Linear_forward (w_v self) v = Inr V" and
    out: "Linear_forward (w_o self)
            (tab3 (b3 q) (s3 q) (nat (mha_d_model self))
               (spec_context (nat (mha_d_k self)) (s3 k) (spec_weights self Q K msk) V)) = Inr out" and
    shape: "b3 out = b3 q" "s3 out = s3 q" "d3 out = d3 q" and
    run: "MultiHeadAttention_forward q k v msk self
            = (Inr out,
               self\<lparr>attention_scores :=
                      Some (tab4 (b3 q) (nat (mha_h self)) (s3 q) (s3 k)
                              (spec_weights self Q K msk))\<rparr>)"
    using MultiHeadAttention_forward_run [OF assms] by blast
  have 1: "fst (MultiHeadAttention_forward q k v msk self) = spec_attend self q k v msk"
    by (simp add: run spec_attend_def Q K V out)
  have 2: "\<exists>out. fst (MultiHeadAttention_forward q k v msk self) = Inr out
              \<and> b3 out = b3 q \<and> s3 out = s3 q \<and> d3 out = d3 q"
    using run shape by simp
  have 3: "\<exists>Q K. Linear_forward (w_q self) q = Inr Q \<and> Linear_forward (w_k self) k = Inr K
              \<and> attention_scores (snd (MultiHeadAttention_forward q k v msk self))
                  = Some (tab4 (b3 q) (nat (mha_h self)) (s3 q) (s3 k)
                            (spec_weights self Q K msk))"
    using Q K run by simp
  have 4: "\<forall>Q K. \<not> training (mha_dropout self) \<longrightarrow>
              spec_weights self Q K msk
                = spec_softmax (s3 K) (spec_masked msk (spec_scores (nat (mha_d_k self)) Q K))"
    by (simp add: spec_weights_def spec_dropout_def [abs_def])
  from 1 2 3 4 show ?thesis by blast
qed

theorem MultiHeadAttention_forward_attend_witness:
  "fst (MultiHeadAttention_forward
          \<lparr>b3 = 1, s3 = 1, d3 = 1, data3 = [2]\<rparr>
          \<lparr>b3 = 1, s3 = 1, d3 = 1, data3 = [2]\<rparr>
          \<lparr>b3 = 1, s3 = 1, d3 = 1, data3 = [2]\<rparr> None
          \<lparr>mha_d_model = 1, mha_h = 1, mha_d_k = 1,
           w_q = \<lparr>in_features = 1, out_features = 1, weight = [[1]], bias = [0]\<rparr>,
           w_k = \<lparr>in_features = 1, out_features = 1, weight = [[1]], bias = [0]\<rparr>,
           w_v = \<lparr>in_features = 1, out_features = 1, weight = [[3]], bias = [0]\<rparr>,
           w_o = \<lparr>in_features = 1, out_features = 1, weight = [[1]], bias = [5]\<rparr>,
           mha_dropout = \<lparr>prob = 1 / 10, training = False, keep = (\<lambda>_. True)\<rparr>,
           attention_scores = None\<rparr>)
     = Inr \<lparr>b3 = 1, s3 = 1, d3 = 1, data3 = [11]\<rparr>"
proof -
  let ?x = "\<lparr>b3 = 1, s3 = 1, d3 = 1, data3 = [2]\<rparr>"
  let ?m = "\<lparr>mha_d_model = 1, mha_h = 1, mha_d_k = 1,
           w_q = \<lparr>in_features = 1, out_features = 1, weight = [[1]], bias = [0]\<rparr>,
           w_k = \<lparr>in_features = 1, out_features = 1, weight = [[1]], bias = [0]\<rparr>,
           w_v = \<lparr>in_features = 1, out_features = 1, weight = [[3]], bias = [0]\<rparr>,
           w_o = \<lparr>in_features = 1, out_features = 1, weight = [[1]], bias = [5]\<rparr>,
           mha_dropout = \<lparr>prob = 1 / 10, training = False, keep = (\<lambda>_. True)\<rparr>,
           attention_scores = None\<rparr>"
  have "fst (MultiHeadAttention_forward ?x ?x ?x None ?m) = spec_attend ?m ?x ?x ?x None"
    by (rule MultiHeadAttention_forward_attend [THEN conjunct1])
       (simp_all add: mha_wf_def linear_wf_def mask_fits_def)
  also have "\<dots> = Inr \<lparr>b3 = 1, s3 = 1, d3 = 1, data3 = [11]\<rparr>"
    by (simp add: spec_attend_def Linear_forward_def tab3_def spec_context_def
          spec_weights_def spec_dropout_def spec_softmax_def spec_masked_def spec_scores_def
          head_entry_def at3_def)
  finally show ?thesis .
qed


end
